theory Spec2Isabelle
  imports Main "HOL-Library.Multiset" "HOL-Library.Sublist"
begin

section \<open>Strings\<close>

text \<open>
  JavaScript strings are modelled as \<^typ>\<open>string\<close>. Case folding and trimming are
  the ASCII fragments of \<^verbatim>\<open>String.prototype.toLowerCase\<close> and
  \<^verbatim>\<open>String.prototype.trim\<close>; characters outside ASCII are left alone.
\<close>

definition newline :: char where
  "newline = CHR 0x0A"

definition dquote :: char where
  "dquote = CHR 0x22"

definition lower_char :: "char \<Rightarrow> char" where
  "lower_char c =
     (case map_of (zip ''ABCDEFGHIJKLMNOPQRSTUVWXYZ'' ''abcdefghijklmnopqrstuvwxyz'') c of
        Some d \<Rightarrow> d
      | None \<Rightarrow> c)"

definition toLowerCase :: "string \<Rightarrow> string" where
  "toLowerCase s = map lower_char s"

definition is_space :: "char \<Rightarrow> bool" where
  "is_space c \<longleftrightarrow> c \<in> {CHR 0x20, CHR 0x09, CHR 0x0A, CHR 0x0B, CHR 0x0C, CHR 0x0D}"

definition trim :: "string \<Rightarrow> string" where
  "trim s = rev (dropWhile is_space (rev (dropWhile is_space s)))"

text \<open>An optional string is falsy when it is absent or empty.\<close>

definition falsy :: "string option \<Rightarrow> bool" where
  "falsy a \<longleftrightarrow> (case a of None \<Rightarrow> True | Some s \<Rightarrow> s = [])"

definition the_string :: "string option \<Rightarrow> string" where
  "the_string a = (case a of None \<Rightarrow> [] | Some s \<Rightarrow> s)"

definition digit_char :: "nat \<Rightarrow> char" where
  "digit_char d = ''0123456789'' ! (d mod 10)"

fun show_nat :: "nat \<Rightarrow> string" where
  "show_nat n = (if n < 10 then [digit_char n] else show_nat (n div 10) @ [digit_char n])"

declare show_nat.simps [simp del]

text \<open>
  \<^verbatim>\<open>encodeURIComponent\<close>, byte by byte: the unreserved characters stand for
  themselves, every other byte becomes a percent sign and two hexadecimal digits.
\<close>

definition unreserved :: "char \<Rightarrow> bool" where
  "unreserved c \<longleftrightarrow>
     c \<in> set (''ABCDEFGHIJKLMNOPQRSTUVWXYZabcdefghijklmnopqrstuvwxyz0123456789-_.!~*()'' @
              [CHR 0x27])"

definition hex_digit :: "nat \<Rightarrow> char" where
  "hex_digit d = ''0123456789ABCDEF'' ! (d mod 16)"

definition encodeURIComponent :: "string \<Rightarrow> string" where
  "encodeURIComponent s =
     concat (map (\<lambda>c. if unreserved c then [c]
                       else [CHR ''%'', hex_digit (of_char c div 16), hex_digit (of_char c)]) s)"

section \<open>JavaScript values\<close>

text \<open>
  The values the code handles without knowing their shape: what \<^verbatim>\<open>JSON.parse\<close>
  returns and the entries of the manifest. An object carries the properties that can be
  read from it and the text \<^verbatim>\<open>String\<close> gives for it (\<^verbatim>\<open>[object Object]\<close>
  for a parsed object, the text of \<^verbatim>\<open>Error.prototype.toString\<close> for an error).
  A number is given by what the code observes of it: whether it is falsy (zero or
  \<^verbatim>\<open>NaN\<close>) and the text \<^verbatim>\<open>String\<close> gives for it. Reading a property of these
  values and converting them to a string does not throw; the values for which it does
  come with the values a snippet throws, below.
\<close>

datatype js_value =
    JsUndefined
  | JsNull
  | JsBool bool
  | JsNumber bool string
  | JsString string
  | JsArray "js_value list"
  | JsObject "(string \<times> js_value) list" string

fun nullish :: "js_value \<Rightarrow> bool" where
  "nullish JsUndefined = True"
| "nullish JsNull = True"
| "nullish v = False"

fun join :: "string \<Rightarrow> string list \<Rightarrow> string" where
  "join sep [] = []"
| "join sep [s] = s"
| "join sep (s # t # ss) = s @ sep @ join sep (t # ss)"

fun js_String :: "js_value \<Rightarrow> string" where
  "js_String JsUndefined = ''undefined''"
| "js_String JsNull = ''null''"
| "js_String (JsBool b) = (if b then ''true'' else ''false'')"
| "js_String (JsNumber zero text) = text"
| "js_String (JsString s) = s"
| "js_String (JsArray xs) = join '','' (map (\<lambda>x. if nullish x then [] else js_String x) xs)"
| "js_String (JsObject props text) = text"

fun truthy :: "js_value \<Rightarrow> bool" where
  "truthy JsUndefined = False"
| "truthy JsNull = False"
| "truthy (JsBool b) = b"
| "truthy (JsNumber zero text) = (\<not> zero)"
| "truthy (JsString s) = (s \<noteq> [])"
| "truthy (JsArray xs) = True"
| "truthy (JsObject props text) = True"

text \<open>
  \<^verbatim>\<open>v?.k\<close>, and \<^verbatim>\<open>v.k\<close> where \<^verbatim>\<open>v\<close> is known not to be nullish, for the
  property names the code reads: on a primitive or an array they give
  \<^verbatim>\<open>undefined\<close>.
\<close>

fun get_prop :: "js_value \<Rightarrow> string \<Rightarrow> js_value" where
  "get_prop (JsObject props text) k = (case map_of props k of Some v \<Rightarrow> v | None \<Rightarrow> JsUndefined)"
| "get_prop v k = JsUndefined"

definition coalesce :: "js_value \<Rightarrow> js_value \<Rightarrow> js_value" where
  "coalesce a b = (if nullish a then b else a)"

definition logical_or :: "js_value \<Rightarrow> js_value \<Rightarrow> js_value" where
  "logical_or a b = (if truthy a then a else b)"

fun isArray :: "js_value \<Rightarrow> bool" where
  "isArray (JsArray xs) = True"
| "isArray v = False"

fun elements :: "js_value \<Rightarrow> js_value list" where
  "elements (JsArray xs) = xs"
| "elements v = []"

text \<open>A plain object as \<^verbatim>\<open>JSON.parse\<close> builds it.\<close>

definition object :: "(string \<times> js_value) list \<Rightarrow> js_value" where
  "object props = JsObject props ''[object Object]''"

section \<open>Errors and results\<close>

text \<open>
  Every error the code throws is an \<^verbatim>\<open>Error\<close> with a message, and the message
  listener reports only the message. The errors of the platform (a rejected
  \<^verbatim>\<open>fetch\<close>, a syntax error of \<^verbatim>\<open>JSON.parse\<close>, an invalid character in
  \<^verbatim>\<open>atob\<close>, a type error) are errors with the platform's message.
\<close>

datatype error = Error (message: string)

text \<open>
  The object returned by the function injected by \<^verbatim>\<open>runInMainWorld\<close>:
  \<^verbatim>\<open>{ok: true, out}\<close>, or \<^verbatim>\<open>{ok: false, error, stack}\<close> where the
  \<^verbatim>\<open>stack\<close> field is absent in the branch that finds no \<^verbatim>\<open>window.Xrm\<close>.
\<close>

datatype 'v exec_result = ExecOk 'v | ExecFail string "string option"

text \<open>
  What the popup receives from the background worker for a message:
  \<^verbatim>\<open>{ok: false, error}\<close>, \<^verbatim>\<open>{ok: true, ...}\<close>, nothing at all, or no answer
  yet because the worker is still waiting.
\<close>

datatype 'a bg_response = Pending | NoResponse | BgError string | BgOk 'a

section \<open>background.js: configuration and storage\<close>

record risk_config =
  requireConfirmForRisky :: bool
  riskyLevels :: "string set"

record config = risk_config +
  owner :: string
  repo :: string
  ref :: string
  manifestPath :: string

definition DEFAULT_CONFIG :: config where
  "DEFAULT_CONFIG = \<lparr>requireConfirmForRisky = True, riskyLevels = {''medium'', ''high''},
     owner = ''PVHewson'', repo = ''snips'', ref = ''main'',
     manifestPath = ''snippets/manifest.json''\<rparr>"

text \<open>
  The object stored under the key \<^verbatim>\<open>config\<close>: each field it has replaces the
  default.
\<close>

record stored_config =
  stored_requireConfirmForRisky :: "bool option"
  stored_riskyLevels :: "string set option"
  stored_owner :: "string option"
  stored_repo :: "string option"
  stored_ref :: "string option"
  stored_manifestPath :: "string option"

record request =
  url :: string
  headers :: "(string \<times> string) list"

record response =
  status :: nat
  statusText :: string
  body :: "error + string"

definition ok :: "response \<Rightarrow> bool" where
  "ok res \<longleftrightarrow> 200 \<le> status res \<and> status res \<le> 299"

text \<open>
  What the code takes from its surroundings: the network, the extension's local storage,
  and the built-in functions whose result the code does not determine. Each fallible one
  returns the error it throws or rejects with.
\<close>

record platform =
  fetch :: "request \<Rightarrow> error + response"
  storage_config :: "stored_config option"
  storage_githubToken :: "string option"
  JSON_parse :: "string \<Rightarrow> error + js_value"
  atob :: "string \<Rightarrow> error + string"
  utf8_decode :: "string \<Rightarrow> string"
  localeCompare :: "string \<Rightarrow> string \<Rightarrow> int"
  TypeError :: error

definition override :: "'a option \<Rightarrow> 'a \<Rightarrow> 'a" where
  "override v d = (case v of None \<Rightarrow> d | Some x \<Rightarrow> x)"

definition getConfig :: "platform \<Rightarrow> config" where
  "getConfig p =
     (case storage_config p of
        None \<Rightarrow> DEFAULT_CONFIG
      | Some c \<Rightarrow>
          \<lparr>requireConfirmForRisky =
             override (stored_requireConfirmForRisky c) (requireConfirmForRisky DEFAULT_CONFIG),
           riskyLevels = override (stored_riskyLevels c) (riskyLevels DEFAULT_CONFIG),
           owner = override (stored_owner c) (owner DEFAULT_CONFIG),
           repo = override (stored_repo c) (repo DEFAULT_CONFIG),
           ref = override (stored_ref c) (ref DEFAULT_CONFIG),
           manifestPath = override (stored_manifestPath c) (manifestPath DEFAULT_CONFIG)\<rparr>)"

definition getToken :: "platform \<Rightarrow> string" where
  "getToken p = trim (case storage_githubToken p of None \<Rightarrow> [] | Some t \<Rightarrow> t)"

section \<open>background.js: the fetch layer\<close>

definition marker :: "config \<Rightarrow> string" where
  "marker cfg =
     ''https://raw.githubusercontent.com/'' @ owner cfg @ ''/'' @ repo cfg @ ''/'' @ ref cfg @ ''/''"

definition rawUrl :: "config \<Rightarrow> string \<Rightarrow> string" where
  "rawUrl cfg path = marker cfg @ dropWhile (\<lambda>c. c = CHR ''/'') path"

definition getGithubHeaders :: "string \<Rightarrow> (string \<times> string) list" where
  "getGithubHeaders token =
     (''Accept'', ''application/vnd.github+json'') #
     (if token \<noteq> [] then [(''Authorization'', ''Bearer '' @ token)] else [])"

definition safeRead :: "response \<Rightarrow> string" where
  "safeRead res = (case body res of Inl e \<Rightarrow> [] | Inr t \<Rightarrow> t)"

definition details :: "string \<Rightarrow> string" where
  "details b = (if b \<noteq> [] then ''Details: '' @ b else [])"

definition cannot_map :: error where
  "cannot_map = Error ''Could not map raw URL to repo path for API fallback.''"

definition api_fetch_failed :: "response \<Rightarrow> string \<Rightarrow> error" where
  "api_fetch_failed res u =
     Error (''GitHub API fetch failed ('' @ show_nat (status res) @ '') for '' @ u @
            [newline] @ details (safeRead res))"

definition fetch_failed :: "response \<Rightarrow> string \<Rightarrow> error" where
  "fetch_failed res u =
     Error (''Fetch failed ('' @ show_nat (status res) @ '') for '' @ u @
            [newline] @ details (safeRead res))"

definition non_file :: "string \<Rightarrow> error" where
  "non_file path = Error (''GitHub API returned non-file content for '' @ path)"

definition apiUrl :: "config \<Rightarrow> string \<Rightarrow> string" where
  "apiUrl cfg path =
     ''https://api.github.com/repos/'' @ owner cfg @ ''/'' @ repo cfg @ ''/contents/'' @ path @
     ''?ref='' @ encodeURIComponent (ref cfg)"

text \<open>\<^verbatim>\<open>res.json()\<close>: reading the body, then parsing it.\<close>

definition res_json :: "platform \<Rightarrow> response \<Rightarrow> error + js_value" where
  "res_json p res = (case body res of Inl e \<Rightarrow> Inl e | Inr t \<Rightarrow> JSON_parse p t)"

text \<open>
  The decoding at the end of \<^verbatim>\<open>fetchViaGithubApi\<close>: newlines are removed,
  \<^verbatim>\<open>atob\<close> gives the bytes as a binary string, and the decoder, which does not
  throw, turns them into text.
\<close>

definition decode_content :: "platform \<Rightarrow> js_value \<Rightarrow> error + string" where
  "decode_content p content =
     (let b64 = filter (\<lambda>c. c \<noteq> newline) (js_String content)
      in case atob p b64 of
           Inl e \<Rightarrow> Inl e
         | Inr txt \<Rightarrow> Inr (utf8_decode p txt))"

text \<open>
  Each function of the fetch layer returns its result together with the requests it
  sent, in order.
\<close>

definition fetchViaGithubApi ::
  "platform \<Rightarrow> config \<Rightarrow> string \<Rightarrow> string \<Rightarrow> (error + string) \<times> request list" where
  "fetchViaGithubApi p cfg rawUrlThatFailed token =
     (let path = (if prefix (marker cfg) rawUrlThatFailed
                  then Some (drop (length (marker cfg)) rawUrlThatFailed) else None)
      in if falsy path then (Inl cannot_map, [])
         else
           let path = the_string path;
               req = \<lparr>url = apiUrl cfg path, headers = getGithubHeaders token\<rparr>
           in case fetch p req of
                Inl e \<Rightarrow> (Inl e, [req])
              | Inr res \<Rightarrow>
                  if \<not> ok res then (Inl (api_fetch_failed res (apiUrl cfg path)), [req])
                  else
                    (case res_json p res of
                       Inl e \<Rightarrow> (Inl e, [req])
                     | Inr json \<Rightarrow>
                         if \<not> truthy json \<or> get_prop json ''type'' \<noteq> JsString ''file'' \<or>
                            \<not> truthy (get_prop json ''content'')
                         then (Inl (non_file path), [req])
                         else (decode_content p (get_prop json ''content''), [req])))"

definition fetchTextWithFallback ::
  "platform \<Rightarrow> config \<Rightarrow> string \<Rightarrow> (error + string) \<times> request list" where
  "fetchTextWithFallback p cfg u =
     (let req = \<lparr>url = u, headers = []\<rparr>
      in case fetch p req of
           Inl e \<Rightarrow> (Inl e, [req])
         | Inr res \<Rightarrow>
             if ok res then (body res, [req])
             else if status res \<in> {401, 403, 404} \<and> getToken p \<noteq> []
             then (let (r, reqs) = fetchViaGithubApi p cfg u (getToken p) in (r, req # reqs))
             else (Inl (fetch_failed res u), [req]))"

section \<open>background.js: loading the manifest\<close>

text \<open>
  The comparator handed to \<^verbatim>\<open>sort\<close>. Reading \<^verbatim>\<open>name\<close> from an entry that
  is \<^verbatim>\<open>null\<close> throws, and so does calling \<^verbatim>\<open>localeCompare\<close> on a name that
  is truthy and not a string; the argument is converted to a string.
\<close>

definition nameOrEmpty :: "js_value \<Rightarrow> js_value" where
  "nameOrEmpty a = logical_or (get_prop a ''name'') (JsString [])"

definition compareNames :: "platform \<Rightarrow> js_value \<Rightarrow> js_value \<Rightarrow> error + int" where
  "compareNames p a b =
     (if nullish a then Inl (TypeError p)
      else case nameOrEmpty a of
             JsString s \<Rightarrow>
               if nullish b then Inl (TypeError p)
               else Inr (localeCompare p s (js_String (nameOrEmpty b)))
           | _ \<Rightarrow> Inl (TypeError p))"

text \<open>
  \<^verbatim>\<open>Array.prototype.sort\<close> is stable, and for a consistent comparator its result
  is the one sorted arrangement that keeps ties in their order. The model computes it by
  insertion from the left, as the engine does on a short array: each element is compared,
  as the first argument of the comparator, with the sorted elements before it, from the
  last one down, and goes in front of those it compares less than. The sorted elements
  are kept last one first. Where the comparator throws, the engine decides which
  comparisons it makes; the model makes those of this insertion.
\<close>

fun insert_by :: "('a \<Rightarrow> 'a \<Rightarrow> error + int) \<Rightarrow> 'a \<Rightarrow> 'a list \<Rightarrow> error + 'a list" where
  "insert_by cmp x [] = Inr [x]"
| "insert_by cmp x (y # ys) =
     (case cmp x y of
        Inl e \<Rightarrow> Inl e
      | Inr c \<Rightarrow>
          if c < 0
          then (case insert_by cmp x ys of Inl e \<Rightarrow> Inl e | Inr zs \<Rightarrow> Inr (y # zs))
          else Inr (x # y # ys))"

text \<open>\<^verbatim>\<open>sort_from\<close> takes the elements last one first, and returns them so.\<close>

fun sort_from :: "('a \<Rightarrow> 'a \<Rightarrow> error + int) \<Rightarrow> 'a list \<Rightarrow> error + 'a list" where
  "sort_from cmp [] = Inr []"
| "sort_from cmp (x # xs) =
     (case sort_from cmp xs of Inl e \<Rightarrow> Inl e | Inr ys \<Rightarrow> insert_by cmp x ys)"

definition sort_by :: "('a \<Rightarrow> 'a \<Rightarrow> error + int) \<Rightarrow> 'a list \<Rightarrow> error + 'a list" where
  "sort_by cmp xs = (case sort_from cmp (rev xs) of Inl e \<Rightarrow> Inl e | Inr ys \<Rightarrow> Inr (rev ys))"

record manifest_response =
  snippets :: "js_value list"
  manifestUrl :: string

definition bad_manifest :: error where
  "bad_manifest = Error ''manifest.json must contain { snippets: [...] }''"

text \<open>
  The branch of the message listener for \<^verbatim>\<open>LOAD_MANIFEST\<close>. The listener catches
  every error and answers with its message.
\<close>

definition load_manifest :: "platform \<Rightarrow> error + manifest_response" where
  "load_manifest p =
     (let cfg = getConfig p;
          u = rawUrl cfg (manifestPath cfg)
      in case fst (fetchTextWithFallback p cfg u) of
           Inl e \<Rightarrow> Inl e
         | Inr text \<Rightarrow>
             (case JSON_parse p text of
                Inl e \<Rightarrow> Inl e
              | Inr manifest \<Rightarrow>
                  if \<not> truthy manifest \<or> \<not> isArray (get_prop manifest ''snippets'')
                  then Inl bad_manifest
                  else (case sort_by (compareNames p) (elements (get_prop manifest ''snippets'')) of
                          Inl e \<Rightarrow> Inl e
                        | Inr ss \<Rightarrow> Inr \<lparr>snippets = ss, manifestUrl = u\<rparr>)))"

definition respond :: "error + 'a \<Rightarrow> 'a bg_response" where
  "respond r = (case r of Inl e \<Rightarrow> BgError (message e) | Inr v \<Rightarrow> BgOk v)"

definition onMessage_LOAD_MANIFEST :: "platform \<Rightarrow> manifest_response bg_response" where
  "onMessage_LOAD_MANIFEST p = respond (load_manifest p)"

section \<open>background.js: loading the files of a snippet\<close>

record files_response =
  readme :: string
  code :: string
  entryPath :: string
  entryUrl :: string
  readmeUrl :: string

text \<open>
  \<^verbatim>\<open>Promise.all\<close> of two promises: it fulfils with both values, and rejects with
  the error of the promise that rejects first. When both reject, which one is first is
  decided by the network; \<^verbatim>\<open>first\<close> tells whether it is the first of the two.
\<close>

definition promise_all :: "bool \<Rightarrow> error + 'a \<Rightarrow> error + 'b \<Rightarrow> error + 'a \<times> 'b" where
  "promise_all first a b =
     (case (a, b) of
        (Inr x, Inr y) \<Rightarrow> Inr (x, y)
      | (Inl e, Inr y) \<Rightarrow> Inl e
      | (Inr x, Inl e) \<Rightarrow> Inl e
      | (Inl e1, Inl e2) \<Rightarrow> Inl (if first then e1 else e2))"

definition default_readmePath :: "js_value \<Rightarrow> string" where
  "default_readmePath s = ''snippets/'' @ js_String (get_prop s ''id'') @ ''/README.md''"

definition default_entryPath :: "js_value \<Rightarrow> string" where
  "default_entryPath s = ''snippets/'' @ js_String (get_prop s ''id'') @ ''/run.js''"

definition readmePath_of :: "js_value \<Rightarrow> string" where
  "readmePath_of s =
     js_String (logical_or (get_prop s ''readmePath'') (JsString (default_readmePath s)))"

definition entryPath_of :: "js_value \<Rightarrow> string" where
  "entryPath_of s =
     js_String (logical_or (get_prop s ''entryPath'') (JsString (default_entryPath s)))"

definition load_snippet_files :: "platform \<Rightarrow> bool \<Rightarrow> js_value \<Rightarrow> error + files_response" where
  "load_snippet_files p first s =
     (let cfg = getConfig p
      in if \<not> truthy (get_prop s ''id'') then Inl (Error ''Missing snippet.'')
         else
           let rUrl = rawUrl cfg (readmePath_of s);
               eUrl = rawUrl cfg (entryPath_of s)
           in case promise_all first (fst (fetchTextWithFallback p cfg rUrl))
                                     (fst (fetchTextWithFallback p cfg eUrl)) of
                Inl e \<Rightarrow> Inl e
              | Inr (r, c) \<Rightarrow>
                  Inr \<lparr>readme = r, code = c, entryPath = entryPath_of s, entryUrl = eUrl,
                       readmeUrl = rUrl\<rparr>)"

definition onMessage_LOAD_SNIPPET_FILES ::
  "platform \<Rightarrow> bool \<Rightarrow> js_value \<Rightarrow> files_response bg_response" where
  "onMessage_LOAD_SNIPPET_FILES p first s = respond (load_snippet_files p first s)"

section \<open>background.js: running a snippet in the page\<close>

text \<open>
  A snippet can throw any value. Besides the values above, it can throw an object with a
  getter that throws, or one that has no conversion to a string, such as
  \<^verbatim>\<open>Object.create(null)\<close>. Such an object carries, for each property, the value
  reading it gives or the value reading it throws, and the text \<^verbatim>\<open>String\<close> gives for
  the object or the value \<^verbatim>\<open>String\<close> throws.
\<close>

datatype thrown =
    Plain js_value
  | Exotic "(string \<times> (thrown + thrown)) list" "thrown + string"

text \<open>\<^verbatim>\<open>e?.k\<close> on a thrown value: the value read, or the value thrown by the getter.\<close>

fun read_prop :: "thrown \<Rightarrow> string \<Rightarrow> thrown + thrown" where
  "read_prop (Plain v) k = Inr (Plain (get_prop v k))"
| "read_prop (Exotic props conv) k =
     (case map_of props k of None \<Rightarrow> Inr (Plain JsUndefined) | Some r \<Rightarrow> r)"

fun thrown_nullish :: "thrown \<Rightarrow> bool" where
  "thrown_nullish (Plain v) = nullish v"
| "thrown_nullish (Exotic props conv) = False"

fun thrown_truthy :: "thrown \<Rightarrow> bool" where
  "thrown_truthy (Plain v) = truthy v"
| "thrown_truthy (Exotic props conv) = True"

text \<open>\<^verbatim>\<open>String(e)\<close> on a thrown value: the text, or the value thrown.\<close>

fun thrown_String :: "thrown \<Rightarrow> thrown + string" where
  "thrown_String (Plain v) = Inr (js_String v)"
| "thrown_String (Exotic props conv) = conv"

text \<open>
  The snippet's text is evaluated by the page's JavaScript engine. The engine is a
  parameter: it maps the wrapped text to what \<^verbatim>\<open>eval\<close> and the call of the
  function it returns do. \<^verbatim>\<open>eval\<close> throws on text that does not parse; the call
  returns a promise that is fulfilled, is rejected, or never settles.
\<close>

datatype 'v outcome =
    Returned 'v
  | Threw thrown
  | Rejected thrown
  | NeverSettles

text \<open>How an asynchronous function ends: its promise is fulfilled, is rejected, or neither.\<close>

datatype 'a completion =
    Fulfilled 'a
  | RejectedWith thrown
  | Unsettled

definition use_strict :: string where
  "use_strict = [dquote] @ ''use strict'' @ [dquote] @ '';''"

definition wrapped :: "string \<Rightarrow> string" where
  "wrapped source =
     ''(async (ctx, Xrm) => {'' @ [newline] @ use_strict @ [newline] @ source @ [newline] @ ''})''"

text \<open>
  The two texts of the \<^verbatim>\<open>catch\<close> block, \<^verbatim>\<open>String(e?.message ?? e)\<close> and
  \<^verbatim>\<open>String(e?.stack ?? "")\<close>: each is the text, or the value thrown while reading
  the property or converting to a string.
\<close>

definition message_text :: "thrown \<Rightarrow> thrown + string" where
  "message_text e =
     (case read_prop e ''message'' of
        Inl x \<Rightarrow> Inl x
      | Inr m \<Rightarrow> thrown_String (if thrown_nullish m then e else m))"

definition stack_text :: "thrown \<Rightarrow> thrown + string" where
  "stack_text e =
     (case read_prop e ''stack'' of
        Inl x \<Rightarrow> Inl x
      | Inr st \<Rightarrow> thrown_String (if thrown_nullish st then Plain (JsString []) else st))"

text \<open>
  The \<^verbatim>\<open>catch\<close> block builds its object field by field, the message first. A value
  thrown on the way leaves the block: the function's promise is rejected with it.
\<close>

definition caught :: "thrown \<Rightarrow> 'v exec_result completion" where
  "caught e =
     (case message_text e of
        Inl x \<Rightarrow> RejectedWith x
      | Inr msg \<Rightarrow>
          (case stack_text e of
             Inl x \<Rightarrow> RejectedWith x
           | Inr st \<Rightarrow> Fulfilled (ExecFail msg (Some st))))"

definition xrm_not_found :: string where
  "xrm_not_found = ''Xrm not found on this page (are you on a D365/Model-driven app tab?).''"

text \<open>
  The function that \<^verbatim>\<open>runInMainWorld\<close> injects into the page, applied to the text:
  \<^verbatim>\<open>hasXrm\<close> tells whether \<^verbatim>\<open>window.Xrm\<close> is set on the page.
\<close>

definition injected ::
  "bool \<Rightarrow> (string \<Rightarrow> 'v outcome) \<Rightarrow> string \<Rightarrow> 'v exec_result completion" where
  "injected hasXrm engine source =
     (if \<not> hasXrm then Fulfilled (ExecFail xrm_not_found None)
      else (case engine (wrapped source) of
              Returned out \<Rightarrow> Fulfilled (ExecOk out)
            | Threw e \<Rightarrow> caught e
            | Rejected e \<Rightarrow> caught e
            | NeverSettles \<Rightarrow> Unsettled))"

text \<open>
  \<^verbatim>\<open>runInMainWorld\<close> hands the function to \<^verbatim>\<open>chrome.scripting.executeScript\<close>
  and returns the \<^verbatim>\<open>result\<close> it gets back. What the worker gets for a completion
  of the function in the page is decided by the browser, and is a parameter: the result
  as it arrives, an error when \<^verbatim>\<open>executeScript\<close> rejects, or \<^const>\<open>None\<close> when it
  does not answer.
\<close>

definition runInMainWorld ::
  "('v exec_result completion \<Rightarrow> (error + 'w exec_result) option) \<Rightarrow> bool \<Rightarrow>
   (string \<Rightarrow> 'v outcome) \<Rightarrow> string option \<Rightarrow> (error + 'w exec_result) option" where
  "runInMainWorld executeScript hasXrm engine userCode =
     executeScript (injected hasXrm engine (the_string userCode))"

text \<open>
  The \<^verbatim>\<open>RUN_SNIPPET\<close> branch of the message listener. The active tab, when there
  is one, is given by whether it has \<^verbatim>\<open>window.Xrm\<close> and by its engine.
\<close>

definition onMessage_RUN_SNIPPET ::
  "('v exec_result completion \<Rightarrow> (error + 'w exec_result) option) \<Rightarrow>
   (bool \<times> (string \<Rightarrow> 'v outcome)) option \<Rightarrow> string option \<Rightarrow> 'w exec_result bg_response" where
  "onMessage_RUN_SNIPPET executeScript tab userCode =
     (case tab of
        None \<Rightarrow> BgError ''No active tab.''
      | Some (hasXrm, engine) \<Rightarrow>
          (case runInMainWorld executeScript hasXrm engine userCode of
             None \<Rightarrow> Pending
           | Some (Inl e) \<Rightarrow> BgError (message e)
           | Some (Inr result) \<Rightarrow> BgOk result))"

section \<open>popup.js\<close>

definition CONFIG :: risk_config where
  "CONFIG = \<lparr>requireConfirmForRisky = True, riskyLevels = {''medium'', ''high''}\<rparr>"

record popup_state =
  selected :: js_value
  selectedCode :: "string option"

text \<open>
  \<^verbatim>\<open>loadManifest\<close> of the popup, from the worker's answer on: it throws when the
  answer is not \<^verbatim>\<open>ok\<close>, and keeps the list otherwise.
\<close>

definition loadManifest :: "manifest_response bg_response \<Rightarrow> (error + js_value list) option" where
  "loadManifest resp =
     (case resp of
        Pending \<Rightarrow> None
      | NoResponse \<Rightarrow> Some (Inl (Error ''Failed to load manifest.''))
      | BgError e \<Rightarrow> Some (Inl (Error e))
      | BgOk r \<Rightarrow> Some (Inr (snippets r)))"

text \<open>
  The observable effects of the two user interfaces, in the order they happen. Status
  lines carry their data; the decoration around it is left out.
\<close>

datatype 'v ui_event =
    Confirm string
  | MetaRunning string
  | SendRunSnippet string
  | Evaluate string
  | MetaRunFailed string
  | MetaCompleted string 'v
  | MetaSnippetError string string
  | Alert string

definition title :: "js_value \<Rightarrow> string" where
  "title s = js_String (logical_or (get_prop s ''name'') (get_prop s ''id''))"

definition riskOf :: "js_value \<Rightarrow> string" where
  "riskOf s = toLowerCase (js_String (logical_or (get_prop s ''risk'') (JsString [])))"

definition confirmText :: "js_value \<Rightarrow> string" where
  "confirmText s =
     ''This snippet is marked risk: '' @ riskOf s @ ''.'' @ [newline, newline] @
     ''Name: '' @ title s @ [newline] @
     ''Version: '' @ js_String (logical_or (get_prop s ''version'') (JsString ''?'')) @
     [newline, newline] @
     ''Proceed to run it on this page?''"

definition report :: "js_value \<Rightarrow> 'v exec_result bg_response \<Rightarrow> 'v ui_event list" where
  "report s resp =
     (case resp of
        Pending \<Rightarrow> []
      | NoResponse \<Rightarrow> [MetaRunFailed ''Run failed.'']
      | BgError e \<Rightarrow> [MetaRunFailed e]
      | BgOk (ExecOk out) \<Rightarrow> [MetaCompleted (title s) out]
      | BgOk (ExecFail e st) \<Rightarrow>
          [MetaSnippetError (title s) e,
           Alert (''Snippet error: '' @ e @ [newline, newline] @ the_string st)])"

definition runSelected ::
  "risk_config \<Rightarrow> (string \<Rightarrow> bool) \<Rightarrow> (string \<Rightarrow> 'v exec_result bg_response) \<Rightarrow>
   popup_state \<Rightarrow> 'v ui_event list" where
  "runSelected cfg confirm bg st =
     (if \<not> truthy (selected st) \<or> falsy (selectedCode st) then []
      else
        let s = selected st;
            source = the_string (selectedCode st);
            run = [MetaRunning (title s), SendRunSnippet source] @ report s (bg source)
        in if requireConfirmForRisky cfg \<and> riskOf s \<in> riskyLevels cfg
           then [Confirm (confirmText s)] @ (if confirm (confirmText s) then run else [])
           else run)"

fun is_send :: "'v ui_event \<Rightarrow> bool" where
  "is_send (SendRunSnippet source) = True"
| "is_send e = False"

fun is_confirm :: "'v ui_event \<Rightarrow> bool" where
  "is_confirm (Confirm msg) = True"
| "is_confirm e = False"

fun is_evaluate :: "'v ui_event \<Rightarrow> bool" where
  "is_evaluate (Evaluate source) = True"
| "is_evaluate e = False"

text \<open>
  Execution proceeds when the popup sends \<^verbatim>\<open>RUN_SNIPPET\<close>, and in the DevTools
  runner when the text is evaluated; a prompt was shown when \<^verbatim>\<open>confirm\<close> was
  called.
\<close>

definition proceeds :: "'v ui_event list \<Rightarrow> bool" where
  "proceeds evs \<longleftrightarrow> list_ex is_send evs"

definition evaluated :: "'v ui_event list \<Rightarrow> bool" where
  "evaluated evs \<longleftrightarrow> list_ex is_evaluate evs"

definition prompted :: "'v ui_event list \<Rightarrow> bool" where
  "prompted evs \<longleftrightarrow> list_ex is_confirm evs"

section \<open>The DevTools runner: running a snippet\<close>

text \<open>
  \<^verbatim>\<open>runSnippet\<close> of the DevTools variant gates on the same test, then evaluates the
  text itself. A syntax error is thrown by \<^verbatim>\<open>eval\<close> before the status line
  changes, a rejection after. When \<^verbatim>\<open>String(err?.message || err)\<close> throws in the
  \<^verbatim>\<open>catch\<close> block, the block is left before it shows anything.
\<close>

definition wrapped_devtools :: "string \<Rightarrow> string" where
  "wrapped_devtools source =
     ''(async (ctx) => {'' @ [newline] @ use_strict @ [newline] @ source @ [newline] @ ''})''"

definition message_text_devtools :: "thrown \<Rightarrow> thrown + string" where
  "message_text_devtools err =
     (case read_prop err ''message'' of
        Inl x \<Rightarrow> Inl x
      | Inr m \<Rightarrow> thrown_String (if thrown_truthy m then m else err))"

definition caught_devtools :: "js_value \<Rightarrow> thrown \<Rightarrow> 'v ui_event list" where
  "caught_devtools s err =
     (case message_text_devtools err of
        Inl x \<Rightarrow> []
      | Inr msg \<Rightarrow> [MetaSnippetError (title s) msg, Alert (''Snippet error: '' @ msg)])"

definition evaluate_devtools ::
  "(string \<Rightarrow> 'v outcome) \<Rightarrow> js_value \<Rightarrow> string \<Rightarrow> 'v ui_event list" where
  "evaluate_devtools engine s source =
     Evaluate (wrapped_devtools source) #
     (case engine (wrapped_devtools source) of
        Threw err \<Rightarrow> caught_devtools s err
      | Rejected err \<Rightarrow> MetaRunning (title s) # caught_devtools s err
      | Returned result \<Rightarrow> [MetaRunning (title s), MetaCompleted (title s) result]
      | NeverSettles \<Rightarrow> [MetaRunning (title s)])"

definition runSnippet ::
  "risk_config \<Rightarrow> (string \<Rightarrow> bool) \<Rightarrow> (string \<Rightarrow> 'v outcome) \<Rightarrow> js_value \<Rightarrow> string \<Rightarrow>
   'v ui_event list" where
  "runSnippet cfg confirm engine s source =
     (if requireConfirmForRisky cfg \<and> riskOf s \<in> riskyLevels cfg
      then [Confirm (confirmText s)] @
           (if confirm (confirmText s) then evaluate_devtools engine s source else [])
      else evaluate_devtools engine s source)"

text \<open>
  \<^verbatim>\<open>fetchViaGithubApi\<close> of the DevTools variant is the same function, with the
  token read from its configuration.
\<close>

definition fetchViaGithubApi_devtools ::
  "platform \<Rightarrow> config \<Rightarrow> string \<Rightarrow> string \<Rightarrow> (error + string) \<times> request list" where
  "fetchViaGithubApi_devtools p cfg githubToken rawUrlThatFailed =
     fetchViaGithubApi p cfg rawUrlThatFailed (trim githubToken)"

section \<open>The bulk-update snippet\<close>

record target =
  field :: "string \<times> bool"
  odata_type :: string
  contactid :: string

definition buildTargets :: "string list \<Rightarrow> string \<Rightarrow> bool \<Rightarrow> target list" where
  "buildTargets ids fieldName v =
     map (\<lambda>i. \<lparr>field = (fieldName, v), odata_type = ''Microsoft.Dynamics.CRM.contact'',
               contactid = i\<rparr>) ids"

text \<open>
  The loop of \<^verbatim>\<open>chunk\<close> advances its index by \<^verbatim>\<open>size\<close>, so it does not end
  when \<^verbatim>\<open>size\<close> is zero and the array is not empty.
\<close>

partial_function (option) chunk_loop ::
  "'a list \<Rightarrow> nat \<Rightarrow> nat \<Rightarrow> 'a list list \<Rightarrow> 'a list list option" where
  "chunk_loop arr size' i out =
     (if i < length arr then chunk_loop arr size' (i + size') (out @ [take size' (drop i arr)])
      else Some out)"

definition chunk :: "'a list \<Rightarrow> nat \<Rightarrow> 'a list list option" where
  "chunk arr size' = chunk_loop arr size' 0 []"

text \<open>
  The state of the click handler: the counter, the text of the display area, and the
  chunks posted so far. The server's answer to the \<^verbatim>\<open>i\<close>-th request is given by
  \<^verbatim>\<open>post i\<close>.
\<close>

record updater =
  processedCount :: nat
  display :: string
  posted :: "target list list"

definition updateMultipleChunk ::
  "(nat \<Rightarrow> target list \<Rightarrow> error + response) \<Rightarrow> nat \<Rightarrow> target list \<Rightarrow> updater \<Rightarrow>
   error option \<times> updater" where
  "updateMultipleChunk post i targetsChunk st =
     (let st = st\<lparr>posted := posted st @ [targetsChunk]\<rparr>
      in case post i targetsChunk of
           Inl e \<Rightarrow> (Some e, st)
         | Inr res \<Rightarrow>
             (case body res of
                Inl e \<Rightarrow> (Some e, st)
              | Inr responseText \<Rightarrow>
                  if \<not> ok res
                  then (Some (Error (''UpdateMultiple failed: '' @ show_nat (status res) @ '' '' @
                                     statusText res)),
                        st\<lparr>display := display st @ [newline, newline] @
                           ''UpdateMultiple failed: '' @ show_nat (status res) @ '', '' @
                           statusText res @ '', '' @ responseText\<rparr>)
                  else
                    let n = processedCount st + length targetsChunk
                    in (None, st\<lparr>processedCount := n,
                                 display := display st @ [newline] @ ''   Updated '' @
                                   show_nat n @ '' contact(s)''\<rparr>)))"

fun send_chunks ::
  "(nat \<Rightarrow> target list \<Rightarrow> error + response) \<Rightarrow> nat \<Rightarrow> target list list \<Rightarrow> updater \<Rightarrow>
   error option \<times> updater" where
  "send_chunks post i [] st = (None, st)"
| "send_chunks post i (c # cs) st =
     (case updateMultipleChunk post i c st of
        (Some e, st') \<Rightarrow> (Some e, st')
      | (None, st') \<Rightarrow> send_chunks post (Suc i) cs st')"

text \<open>
  The click handler from the list of identifiers on. \<^const>\<open>None\<close> is the handler that
  does not return.
\<close>

definition process_file ::
  "(nat \<Rightarrow> target list \<Rightarrow> error + response) \<Rightarrow> string list \<Rightarrow> string \<Rightarrow>
   (error option \<times> updater) option" where
  "process_file post contactIds shown =
     (let targets = buildTargets contactIds ''mag_hascriticalinsights'' False
      in case chunk targets 200 of
           None \<Rightarrow> None
         | Some chunks \<Rightarrow>
             let st = \<lparr>processedCount = 0,
                       display = shown @ [newline] @ ''Submitting '' @ show_nat (length targets) @
                         '' updates in '' @ show_nat (length chunks) @ '' request(s)...'',
                       posted = []\<rparr>
             in case send_chunks post 0 chunks st of
                  (Some e, st') \<Rightarrow> Some (Some e, st')
                | (None, st') \<Rightarrow>
                    Some (None, st'\<lparr>display := display st' @ [newline, newline] @
                            show_nat (length targets) @ '' records processed.''\<rparr>))"

text \<open>
  A request succeeds when the server answers, the body can be read and the status is a
  success. \<^verbatim>\<open>completed post i cs\<close> counts the chunks of \<^verbatim>\<open>cs\<close> that succeed
  before the first one that does not, the first of them being request \<^verbatim>\<open>i\<close>.
\<close>

definition succeeds :: "(nat \<Rightarrow> target list \<Rightarrow> error + response) \<Rightarrow> nat \<Rightarrow> target list \<Rightarrow> bool" where
  "succeeds post i c \<longleftrightarrow>
     (case post i c of Inl e \<Rightarrow> False
      | Inr res \<Rightarrow> (case body res of Inl e \<Rightarrow> False | Inr t \<Rightarrow> ok res))"

fun completed :: "(nat \<Rightarrow> target list \<Rightarrow> error + response) \<Rightarrow> nat \<Rightarrow> target list list \<Rightarrow> nat" where
  "completed post i [] = 0"
| "completed post i (c # cs) =
     (if succeeds post i c then Suc (completed post (Suc i) cs) else 0)"

section \<open>Notions used in the statements\<close>

text \<open>
  An entry of the manifest can be sorted when reading its name and comparing it does not
  throw: it is not \<^verbatim>\<open>null\<close>, and its name is a string, or is falsy and stands for
  the empty string. \<^verbatim>\<open>nameText\<close> is the name the comparator sees.
\<close>

fun is_string :: "js_value \<Rightarrow> bool" where
  "is_string (JsString s) = True"
| "is_string v = False"

definition sortable :: "js_value \<Rightarrow> bool" where
  "sortable x \<longleftrightarrow> \<not> nullish x \<and> is_string (nameOrEmpty x)"

definition nameText :: "js_value \<Rightarrow> string" where
  "nameText x = js_String (nameOrEmpty x)"

text \<open>
  A comparator is consistent on a set of keys when its sign is antisymmetric and its
  order transitive there, which is what \<^verbatim>\<open>Array.prototype.sort\<close> asks of it.
\<close>

definition consistent_on :: "('k \<Rightarrow> 'k \<Rightarrow> int) \<Rightarrow> 'k set \<Rightarrow> bool" where
  "consistent_on c S \<longleftrightarrow>
     (\<forall>a\<in>S. \<forall>b\<in>S. (c a b < 0 \<longleftrightarrow> 0 < c b a)) \<and>
     (\<forall>a\<in>S. \<forall>b\<in>S. \<forall>d\<in>S. c a b \<le> 0 \<and> c b d \<le> 0 \<longrightarrow> c a d \<le> 0)"

text \<open>Insertion sort for a comparator that does not throw.\<close>

fun insert_pure :: "('a \<Rightarrow> 'a \<Rightarrow> int) \<Rightarrow> 'a \<Rightarrow> 'a list \<Rightarrow> 'a list" where
  "insert_pure c x [] = [x]"
| "insert_pure c x (y # ys) = (if c x y \<le> 0 then x # y # ys else y # insert_pure c x ys)"

fun sort_pure :: "('a \<Rightarrow> 'a \<Rightarrow> int) \<Rightarrow> 'a list \<Rightarrow> 'a list" where
  "sort_pure c [] = []"
| "sort_pure c (x # xs) = insert_pure c x (sort_pure c xs)"

text \<open>
  The texts the bulk update appends to its display area: the line that announces the
  requests, the line that reports the count after a chunk, the text for a request that
  was answered with a status that is not a success (nothing is appended when the request
  or the reading of its body fails), and the closing line.
\<close>

definition submitting_line :: "nat \<Rightarrow> nat \<Rightarrow> string" where
  "submitting_line n k =
     [newline] @ ''Submitting '' @ show_nat n @ '' updates in '' @ show_nat k @ '' request(s)...''"

definition updated_line :: "nat \<Rightarrow> string" where
  "updated_line n = [newline] @ ''   Updated '' @ show_nat n @ '' contact(s)''"

definition failure_text :: "error + response \<Rightarrow> string" where
  "failure_text a =
     (case a of
        Inl e \<Rightarrow> []
      | Inr res \<Rightarrow>
          (case body res of
             Inl e \<Rightarrow> []
           | Inr responseText \<Rightarrow>
               [newline, newline] @ ''UpdateMultiple failed: '' @ show_nat (status res) @ '', '' @
               statusText res @ '', '' @ responseText))"

definition final_line :: "nat \<Rightarrow> string" where
  "final_line n = [newline, newline] @ show_nat n @ '' records processed.''"

text \<open>
  The lines that report the count after each of the first \<^verbatim>\<open>k\<close> chunks: the
  \<^verbatim>\<open>j\<close>-th reports \<^verbatim>\<open>n\<close> and the number of targets in the chunks up to it.
\<close>

definition progress_lines :: "nat \<Rightarrow> 'a list list \<Rightarrow> nat \<Rightarrow> string" where
  "progress_lines n cs k =
     concat (map (\<lambda>j. updated_line (n + length (concat (take (Suc j) cs)))) [0..<k])"

section \<open>Sample inputs\<close>

text \<open>
  Concrete descriptors, engines, answers of the user, repositories and servers, for the
  examples below.
\<close>

definition risky_snippet :: "string \<Rightarrow> js_value" where
  "risky_snippet r =
     object [(''id'', JsString ''a''), (''name'', JsString ''Sample''), (''risk'', JsString r)]"

definition plain_snippet :: js_value where
  "plain_snippet = object [(''id'', JsString ''a''), (''name'', JsString ''Sample'')]"

text \<open>
  The error \<^verbatim>\<open>new Error()\<close>: its message is the empty string, and its string
  conversion is its name.
\<close>

definition empty_error :: js_value where
  "empty_error = JsObject [(''message'', JsString []), (''stack'', JsString ''Error'')] ''Error''"

text \<open>
  The object \<^verbatim>\<open>Object.create(null)\<close> has no property and no conversion to a
  string: \<^verbatim>\<open>String\<close> throws a type error for it.
\<close>

definition no_primitive :: js_value where
  "no_primitive =
     JsObject [(''message'', JsString ''Cannot convert object to primitive value'')]
       ''TypeError: Cannot convert object to primitive value''"

definition bare_object :: thrown where
  "bare_object = Exotic [] (Inl (Plain no_primitive))"

definition sample_engine :: "string \<Rightarrow> int outcome" where
  "sample_engine w =
     (if w = wrapped ''return 42;'' then Returned 42
      else if w = wrapped ''throw new Error();'' then Rejected (Plain empty_error)
      else if w = wrapped ''throw Object.create(null);'' then Rejected bare_object
      else if w = wrapped ''await Promise.reject(null);'' then Rejected (Plain JsNull)
      else NeverSettles)"

text \<open>
  A browser that hands the result over as it is, and rejects when the function in the
  page does.
\<close>

definition sample_executeScript ::
  "int exec_result completion \<Rightarrow> (error + int exec_result) option" where
  "sample_executeScript c =
     (case c of
        Fulfilled r \<Rightarrow> Some (Inr r)
      | RejectedWith x \<Rightarrow> Some (Inl (Error ''Uncaught (in promise)''))
      | Unsettled \<Rightarrow> None)"


definition no :: "string \<Rightarrow> bool" where
  "no msg = False"

definition sample_bg :: "string \<Rightarrow> int exec_result bg_response" where
  "sample_bg = onMessage_RUN_SNIPPET sample_executeScript (Some (True, sample_engine)) \<circ> Some"

definition beta :: js_value where
  "beta = object [(''id'', JsString ''a''), (''name'', JsString ''Beta'')]"

definition alpha :: js_value where
  "alpha = object [(''id'', JsString ''b''), (''name'', JsString ''alpha'')]"

definition upper_alpha :: js_value where
  "upper_alpha = object [(''id'', JsString ''a''), (''name'', JsString ''Alpha'')]"

definition lower_alpha :: js_value where
  "lower_alpha = object [(''id'', JsString ''b''), (''name'', JsString ''alpha'')]"

definition nameless :: js_value where
  "nameless = object [(''id'', JsString ''c'')]"

definition sample_manifest :: js_value where
  "sample_manifest = object [(''snippets'', JsArray [beta, alpha])]"

text \<open>
  The bodies the sample servers send stand for JSON texts; the parser of the samples
  gives the value each of them parses to. The content of the second file is the base64
  encoding of \<^verbatim>\<open>return 42;\<close>, broken by a newline.
\<close>

definition sample_parse :: "string \<Rightarrow> error + js_value" where
  "sample_parse text =
     (if text = ''{snippets:[Beta,alpha]}'' then Inr sample_manifest
      else if text = ''{snippets:[Alpha,alpha]}''
      then Inr (object [(''snippets'', JsArray [upper_alpha, lower_alpha])])
      else if text = ''{snippets:[Beta,{id:c},alpha]}''
      then Inr (object [(''snippets'', JsArray [beta, nameless, alpha])])
      else if text = ''{snippets:[null,null]}''
      then Inr (object [(''snippets'', JsArray [JsNull, JsNull])])
      else if text = ''{}'' then Inr (object [])
      else if text = ''{type:file,content:}''
      then Inr (object [(''type'', JsString ''file''), (''content'', JsString [])])
      else if text = ''{type:file,content:cmV0dXJu.IDQyOw==}''
      then Inr (object [(''type'', JsString ''file''),
                        (''content'', JsString (''cmV0dXJu'' @ [newline] @ ''IDQyOw==''))])
      else Inl (Error ''Unexpected token''))"

definition sample_atob :: "string \<Rightarrow> error + string" where
  "sample_atob s =
     (if s = [] then Inr []
      else if s = ''cmV0dXJuIDQyOw=='' then Inr ''return 42;''
      else Inl (Error ''The string to be decoded is not correctly encoded.''))"

definition answer :: "nat \<Rightarrow> string \<Rightarrow> string \<Rightarrow> error + response" where
  "answer n t b = Inr \<lparr>status = n, statusText = t, body = Inr b\<rparr>"

text \<open>
  A public repository: the raw host serves the manifest, the files of snippet
  \<^verbatim>\<open>a\<close> and an empty documentation file of snippet \<^verbatim>\<open>e\<close>.
\<close>

definition public_fetch :: "request \<Rightarrow> error + response" where
  "public_fetch r =
     (if url r = rawUrl DEFAULT_CONFIG ''snippets/manifest.json''
      then answer 200 ''OK'' ''{snippets:[Beta,alpha]}''
      else if url r = rawUrl DEFAULT_CONFIG ''snippets/a/README.md'' then answer 200 ''OK'' ''# A''
      else if url r = rawUrl DEFAULT_CONFIG ''snippets/a/run.js'' then answer 200 ''OK'' ''return 42;''
      else if url r = rawUrl DEFAULT_CONFIG ''snippets/e/README.md'' then answer 200 ''OK'' []
      else answer 404 ''Not Found'' ''404: Not Found'')"

text \<open>
  A private repository: the raw host refuses every request, the API serves the same
  files to a request that carries the token.
\<close>

definition private_fetch :: "request \<Rightarrow> error + response" where
  "private_fetch r =
     (if map_of (headers r) ''Authorization'' \<noteq> Some ''Bearer ghp_token''
      then answer 403 ''Forbidden'' ''denied''
      else if url r = apiUrl DEFAULT_CONFIG ''snippets/a/run.js''
      then answer 200 ''OK'' ''{type:file,content:cmV0dXJu.IDQyOw==}''
      else if url r = apiUrl DEFAULT_CONFIG ''snippets/e/README.md''
      then answer 200 ''OK'' ''{type:file,content:}''
      else answer 404 ''Not Found'' ''Not Found'')"

text \<open>
  A comparator that orders strings of ASCII letters as the default collation of
  \<^verbatim>\<open>localeCompare\<close> does: by their letters first, whatever the case, and strings
  with the same letters by case, lower case first.
\<close>

fun lex_compare :: "nat list \<Rightarrow> nat list \<Rightarrow> int" where
  "lex_compare [] [] = 0"
| "lex_compare [] (y # ys) = - 1"
| "lex_compare (x # xs) [] = 1"
| "lex_compare (x # xs) (y # ys) =
     (if x < y then - 1 else if y < x then 1 else lex_compare xs ys)"

definition codes :: "string \<Rightarrow> nat list" where
  "codes s = map of_char s"

definition letters_compare :: "string \<Rightarrow> string \<Rightarrow> int" where
  "letters_compare a b =
     (let c = lex_compare (codes (toLowerCase a)) (codes (toLowerCase b))
      in if c \<noteq> 0 then c else lex_compare (codes b) (codes a))"

definition public_repo :: platform where
  "public_repo = \<lparr>fetch = public_fetch, storage_config = None, storage_githubToken = None,
     JSON_parse = sample_parse, atob = sample_atob, utf8_decode = (\<lambda>bytes. bytes),
     localeCompare = letters_compare, TypeError = Error ''TypeError''\<rparr>"

text \<open>Repositories whose manifest is another text, whatever else is asked of them.\<close>

definition serving :: "string \<Rightarrow> platform" where
  "serving text = public_repo\<lparr>fetch := (\<lambda>r. answer 200 ''OK'' text)\<rparr>"

definition private_repo :: platform where
  "private_repo = public_repo\<lparr>fetch := private_fetch\<rparr>"

definition private_repo_with_token :: platform where
  "private_repo_with_token = private_repo\<lparr>storage_githubToken := Some '' ghp_token ''\<rparr>"

definition snippet_e :: js_value where
  "snippet_e = object [(''id'', JsString ''e'')]"

definition sample_post :: "nat \<Rightarrow> target list \<Rightarrow> error + response" where
  "sample_post i c =
     (if i = 0 then answer 204 ''No Content'' [] else answer 500 ''Server Error'' ''busy'')"

definition sample_target :: target where
  "sample_target = \<lparr>field = (''mag_hascriticalinsights'', False),
     odata_type = ''Microsoft.Dynamics.CRM.contact'', contactid = ''c1''\<rparr>"

section \<open>The risk gate\<close>

lemma proceeds_simps:
  "proceeds (e # evs) \<longleftrightarrow> is_send e \<or> proceeds (evs :: 'v ui_event list)"
  "\<not> proceeds ([] :: 'v ui_event list)"
  "proceeds (evs @ evs') \<longleftrightarrow> proceeds evs \<or> proceeds (evs' :: 'v ui_event list)"
  by (simp_all add: proceeds_def)

lemma prompted_simps:
  "prompted (e # evs) \<longleftrightarrow> is_confirm e \<or> prompted (evs :: 'v ui_event list)"
  "\<not> prompted ([] :: 'v ui_event list)"
  "prompted (evs @ evs') \<longleftrightarrow> prompted evs \<or> prompted (evs' :: 'v ui_event list)"
  by (simp_all add: prompted_def)

lemma evaluated_simps:
  "evaluated (e # evs) \<longleftrightarrow> is_evaluate e \<or> evaluated (evs :: 'v ui_event list)"
  "\<not> evaluated ([] :: 'v ui_event list)"
  by (simp_all add: evaluated_def)

lemma report_silent: "\<not> prompted (report s resp)" "\<not> proceeds (report s resp)"
  by (auto simp: prompted_def proceeds_def report_def split: bg_response.splits exec_result.splits)

lemma evaluate_devtools_events:
  "\<not> prompted (evaluate_devtools engine s source)" "evaluated (evaluate_devtools engine s source)"
  by (auto simp: prompted_def evaluated_def evaluate_devtools_def caught_devtools_def Let_def
           split: outcome.splits sum.splits)

lemma prompted_runSelected:
  assumes "truthy (selected st)" and "selectedCode st = Some source" and "source \<noteq> []"
  shows "prompted (runSelected cfg confirm bg st) \<longleftrightarrow>
           requireConfirmForRisky cfg \<and> riskOf (selected st) \<in> riskyLevels cfg"
  using assms
  by (simp add: runSelected_def falsy_def Let_def proceeds_simps prompted_simps report_silent)

lemma proceeds_runSelected:
  assumes "truthy (selected st)" and "selectedCode st = Some source" and "source \<noteq> []"
  shows "proceeds (runSelected cfg confirm bg st) \<longleftrightarrow>
           (requireConfirmForRisky cfg \<and> riskOf (selected st) \<in> riskyLevels cfg \<longrightarrow>
            confirm (confirmText (selected st)))"
  using assms
  by (simp add: runSelected_def falsy_def Let_def proceeds_simps prompted_simps report_silent)

lemma prompted_runSnippet:
  "prompted (runSnippet cfg confirm engine s source) \<longleftrightarrow>
     requireConfirmForRisky cfg \<and> riskOf s \<in> riskyLevels cfg"
  by (simp add: runSnippet_def prompted_simps evaluate_devtools_events)

lemma evaluated_runSnippet:
  "evaluated (runSnippet cfg confirm engine s source) \<longleftrightarrow>
     (requireConfirmForRisky cfg \<and> riskOf s \<in> riskyLevels cfg \<longrightarrow> confirm (confirmText s))"
  by (simp add: runSnippet_def evaluated_simps evaluate_devtools_events)



lemma riskOf_plain_snippet: "riskOf plain_snippet = []"
  by (simp add: riskOf_def plain_snippet_def object_def logical_or_def toLowerCase_def)

lemma toLowerCase_samples:
  "toLowerCase ''High'' = ''high''" "toLowerCase ''HIGH'' = ''high''"
  "toLowerCase ''high'' = ''high''" "toLowerCase ''low'' = ''low''"
  by (simp_all add: toLowerCase_def lower_char_def)



text \<open>
  Claim C10. In both user interfaces the risk classification is converted to lower case
  before the membership test, a missing \<^verbatim>\<open>risk\<close> field counting as the empty
  string: the prompt is shown exactly when confirmation is enabled and the lower-cased
  classification is in the risky set. With the built-in configuration the values
  \<^verbatim>\<open>High\<close>, \<^verbatim>\<open>HIGH\<close> and \<^verbatim>\<open>high\<close> all lead to the prompt, and a
  descriptor without a \<^verbatim>\<open>risk\<close> field proceeds without one.
\<close>

theorem risk_gate_lowercases:
  assumes "truthy (selected st)" and "selectedCode st = Some source" and "source \<noteq> []"
  shows "(prompted (runSelected cfg confirm bg st) \<longleftrightarrow>
            requireConfirmForRisky cfg \<and>
            toLowerCase (js_String (logical_or (get_prop (selected st) ''risk'') (JsString [])))
              \<in> riskyLevels cfg) \<and>
         (prompted (runSnippet cfg confirm engine s text) \<longleftrightarrow>
            requireConfirmForRisky cfg \<and>
            toLowerCase (js_String (logical_or (get_prop s ''risk'') (JsString [])))
              \<in> riskyLevels cfg) \<and>
         (get_prop (selected st) ''risk'' \<in> {JsString ''High'', JsString ''HIGH'', JsString ''high''} \<longrightarrow>
            prompted (runSelected CONFIG confirm bg st)) \<and>
         (get_prop s ''risk'' \<in> {JsString ''High'', JsString ''HIGH'', JsString ''high''} \<longrightarrow>
            prompted (runSnippet CONFIG confirm engine s text)) \<and>
         (get_prop (selected st) ''risk'' = JsUndefined \<longrightarrow>
            riskOf (selected st) = [] \<and>
            \<not> prompted (runSelected CONFIG confirm bg st) \<and>
            proceeds (runSelected CONFIG confirm bg st)) \<and>
         (get_prop s ''risk'' = JsUndefined \<longrightarrow>
            riskOf s = [] \<and>
            \<not> prompted (runSnippet CONFIG confirm engine s text) \<and>
            evaluated (runSnippet CONFIG confirm engine s text))"
proof -
  have high: "get_prop d ''risk'' \<in> {JsString ''High'', JsString ''HIGH'', JsString ''high''}
      \<Longrightarrow> riskOf d = ''high''" for d
    by (auto simp: riskOf_def logical_or_def toLowerCase_samples)
  have none: "get_prop d ''risk'' = JsUndefined \<Longrightarrow> riskOf d = []" for d
    by (simp add: riskOf_def logical_or_def toLowerCase_def)
  have p1: "prompted (runSelected c confirm bg st) \<longleftrightarrow>
       requireConfirmForRisky c \<and> riskOf (selected st) \<in> riskyLevels c" for c
    using assms by (rule prompted_runSelected)
  have p2: "proceeds (runSelected c confirm bg st) \<longleftrightarrow>
       (requireConfirmForRisky c \<and> riskOf (selected st) \<in> riskyLevels c \<longrightarrow>
        confirm (confirmText (selected st)))" for c
    using assms by (rule proceeds_runSelected)
  show ?thesis
    using high [of s] high [of "selected st"] none [of s] none [of "selected st"]
    by (auto simp: p1 p2 prompted_runSnippet evaluated_runSnippet CONFIG_def riskOf_def)
qed

text \<open>The same at sample descriptors.\<close>

theorem risk_gate_lowercases_witness:
  "prompted (runSelected CONFIG no sample_bg
       \<lparr>selected = risky_snippet ''High'', selectedCode = Some ''return 42;''\<rparr>) \<and>
   prompted (runSnippet CONFIG no sample_engine (risky_snippet ''HIGH'') ''return 42;'') \<and>
   proceeds (runSelected CONFIG no sample_bg
       \<lparr>selected = plain_snippet, selectedCode = Some ''return 42;''\<rparr>) \<and>
   \<not> prompted (runSelected CONFIG no sample_bg
       \<lparr>selected = plain_snippet, selectedCode = Some ''return 42;''\<rparr>) \<and>
   evaluated (runSnippet CONFIG no sample_engine plain_snippet ''return 42;'')"
  using
    risk_gate_lowercases [of "\<lparr>selected = risky_snippet ''High'', selectedCode = Some ''return 42;''\<rparr>"
      "''return 42;''" CONFIG no sample_bg sample_engine "risky_snippet ''HIGH''" "''return 42;''"]
    risk_gate_lowercases [of "\<lparr>selected = plain_snippet, selectedCode = Some ''return 42;''\<rparr>"
      "''return 42;''" CONFIG no sample_bg sample_engine plain_snippet "''return 42;''"]
  by (simp add: risky_snippet_def plain_snippet_def object_def logical_or_def
        toLowerCase_def lower_char_def CONFIG_def)

section \<open>The execution engine\<close>

lemma wrapped_inj: "wrapped a = wrapped b \<longleftrightarrow> a = b"
  by (simp add: wrapped_def)

lemma texts_Plain:
  "message_text (Plain v) = Inr (js_String (coalesce (get_prop v ''message'') v))"
  "stack_text (Plain v) = Inr (js_String (coalesce (get_prop v ''stack'') (JsString [])))"
  by (simp_all add: message_text_def stack_text_def coalesce_def)

lemma caught_cases:
  "message_text e = Inr msg \<Longrightarrow> stack_text e = Inr st \<Longrightarrow>
     (caught e :: 'v exec_result completion) = Fulfilled (ExecFail msg (Some st))"
  "message_text e = Inl x \<Longrightarrow> (caught e :: 'v exec_result completion) = RejectedWith x"
  "message_text e = Inr msg \<Longrightarrow> stack_text e = Inl x \<Longrightarrow>
     (caught e :: 'v exec_result completion) = RejectedWith x"
  by (simp_all add: caught_def)

text \<open>
  A snippet that throws \<^verbatim>\<open>new Error()\<close> yields the failure branch with an empty
  message: the message of the error is the empty string, which is not nullish, so it is
  what \<^verbatim>\<open>String(e?.message ?? e)\<close> converts. A snippet that throws
  \<^verbatim>\<open>Object.create(null)\<close> yields no result at all: the object has no message, so
  \<^verbatim>\<open>String\<close> is applied to the object itself and throws, and the type error leaves
  the \<^verbatim>\<open>catch\<close> block.
\<close>

theorem execute_message_counterexample:
  "injected True sample_engine ''throw new Error();'' =
     Fulfilled (ExecFail [] (Some ''Error'')) \<and>
   injected True sample_engine ''throw Object.create(null);'' = RejectedWith (Plain no_primitive)"
  by (simp add: injected_def sample_engine_def wrapped_inj caught_def message_text_def
        stack_text_def empty_error_def bare_object_def)

text \<open>
  Claim C1, amended. The function injected into the page ends in one of three ways. On a
  page without \<^verbatim>\<open>window.Xrm\<close> it returns the failure record with the fixed message
  and no stack. On a page with it: a snippet that returns yields success with the
  returned value unchanged; a snippet that throws, or whose promise is rejected, with the
  value \<^verbatim>\<open>e\<close> yields the failure record whose message is the text of
  \<^verbatim>\<open>e?.message ?? e\<close> and whose stack is the text of \<^verbatim>\<open>e?.stack ?? ""\<close>,
  provided that reading the two properties and converting to a string does not throw,
  as it does not for a primitive value, an error or a plain object; for these the message
  is the error's own message whenever that is a string, empty or not. When reading or
  converting throws, the value thrown leaves the function, whose promise is rejected
  with it. A snippet whose promise never settles leaves the function unsettled. What
  \<^verbatim>\<open>runInMainWorld\<close> returns is what the browser makes of that completion.
\<close>

theorem execute_result:
  fixes engine :: "string \<Rightarrow> 'v outcome"
    and executeScript :: "'v exec_result completion \<Rightarrow> (error + 'w exec_result) option"
  shows
    "(\<not> hasXrm \<longrightarrow>
        injected hasXrm engine source = Fulfilled (ExecFail xrm_not_found None)) \<and>
     (hasXrm \<and> engine (wrapped source) = Returned out \<longrightarrow>
        injected hasXrm engine source = Fulfilled (ExecOk out)) \<and>
     (hasXrm \<and> (engine (wrapped source) = Threw e \<or> engine (wrapped source) = Rejected e) \<longrightarrow>
        (\<forall>msg st. message_text e = Inr msg \<and> stack_text e = Inr st \<longrightarrow>
           injected hasXrm engine source = Fulfilled (ExecFail msg (Some st))) \<and>
        (\<forall>x. message_text e = Inl x \<longrightarrow> injected hasXrm engine source = RejectedWith x) \<and>
        (\<forall>msg x. message_text e = Inr msg \<and> stack_text e = Inl x \<longrightarrow>
           injected hasXrm engine source = RejectedWith x) \<and>
        (\<forall>v. e = Plain v \<longrightarrow>
           injected hasXrm engine source =
             Fulfilled (ExecFail (js_String (coalesce (get_prop v ''message'') v))
                          (Some (js_String (coalesce (get_prop v ''stack'') (JsString []))))) \<and>
           (\<forall>m. get_prop v ''message'' = JsString m \<longrightarrow>
              js_String (coalesce (get_prop v ''message'') v) = m))) \<and>
     (hasXrm \<and> engine (wrapped source) = NeverSettles \<longrightarrow>
        injected hasXrm engine source = Unsettled) \<and>
     runInMainWorld executeScript hasXrm engine (Some source) =
       executeScript (injected hasXrm engine source)"
proof -
  have c: "hasXrm \<Longrightarrow> engine (wrapped source) = Threw e \<or> engine (wrapped source) = Rejected e
      \<Longrightarrow> injected hasXrm engine source = caught e"
    by (auto simp: injected_def)
  have p: "(caught (Plain v) :: 'v exec_result completion) =
      Fulfilled (ExecFail (js_String (coalesce (get_prop v ''message'') v))
                   (Some (js_String (coalesce (get_prop v ''stack'') (JsString [])))))" for v
    by (simp add: caught_def texts_Plain)
  have m: "get_prop v ''message'' = JsString m \<Longrightarrow>
      js_String (coalesce (get_prop v ''message'') v) = m" for v m
    by (simp add: coalesce_def)
  show ?thesis
    using c p m caught_cases [of e, where ?'v = 'v]
    by (auto simp: injected_def runInMainWorld_def the_string_def)
qed

text \<open>
  At the sample engine: the text \<^verbatim>\<open>return 42;\<close> yields success with 42 on a page
  with \<^verbatim>\<open>window.Xrm\<close>, also through a browser that hands results over as they are,
  and the fixed failure on a page without; a promise rejected with \<^verbatim>\<open>null\<close> yields
  the failure record with message \<^verbatim>\<open>null\<close>; a snippet that throws
  \<^verbatim>\<open>Object.create(null)\<close> leaves the function rejected with the type error of the
  conversion, and a browser that rejects then gives the worker an error and no result.
\<close>

theorem execute_result_witness:
  "injected True sample_engine ''return 42;'' = Fulfilled (ExecOk 42) \<and>
   runInMainWorld sample_executeScript True sample_engine (Some ''return 42;'') =
     Some (Inr (ExecOk 42)) \<and>
   injected False sample_engine ''return 42;'' = Fulfilled (ExecFail xrm_not_found None) \<and>
   injected True sample_engine ''await Promise.reject(null);'' =
     Fulfilled (ExecFail ''null'' (Some [])) \<and>
   message_text bare_object = Inl (Plain no_primitive) \<and>
   injected True sample_engine ''throw Object.create(null);'' = RejectedWith (Plain no_primitive) \<and>
   runInMainWorld sample_executeScript True sample_engine (Some ''throw Object.create(null);'') =
     Some (Inl (Error ''Uncaught (in promise)''))"
  using execute_result [of False sample_engine "''return 42;''" 42 "Plain JsNull" sample_executeScript]
    execute_result [of True sample_engine "''return 42;''" 42 "Plain JsNull" sample_executeScript]
    execute_result [of True sample_engine "''await Promise.reject(null);''" 42 "Plain JsNull"
      sample_executeScript]
    execute_result [of True sample_engine "''throw Object.create(null);''" 42 bare_object
      sample_executeScript]
  by (simp add: sample_engine_def wrapped_inj coalesce_def sample_executeScript_def
        message_text_def bare_object_def)

section \<open>The fetch layer\<close>

lemma encodeURIComponent_main: "encodeURIComponent ''main'' = ''main''"
  by (simp add: encodeURIComponent_def unreserved_def)

lemma getToken_samples:
  "getToken public_repo = []" "getToken private_repo = []"
  "getToken private_repo_with_token = ''ghp_token''"
  by (simp_all add: getToken_def public_repo_def private_repo_def private_repo_with_token_def
        trim_def is_space_def)

lemma show_nat_samples: "show_nat 200 = ''200''" "show_nat 403 = ''403''" "show_nat 404 = ''404''"
  by (simp_all add: show_nat.simps digit_char_def)

lemma rawUrl_default:
  "rawUrl DEFAULT_CONFIG ''snippets/manifest.json'' =
     ''https://raw.githubusercontent.com/PVHewson/snips/main/snippets/manifest.json''"
  "rawUrl DEFAULT_CONFIG ''snippets/a/README.md'' =
     ''https://raw.githubusercontent.com/PVHewson/snips/main/snippets/a/README.md''"
  "rawUrl DEFAULT_CONFIG ''snippets/a/run.js'' =
     ''https://raw.githubusercontent.com/PVHewson/snips/main/snippets/a/run.js''"
  "rawUrl DEFAULT_CONFIG ''snippets/e/README.md'' =
     ''https://raw.githubusercontent.com/PVHewson/snips/main/snippets/e/README.md''"
  by (simp_all add: rawUrl_def marker_def DEFAULT_CONFIG_def)

lemma marker_default:
  "marker DEFAULT_CONFIG = ''https://raw.githubusercontent.com/PVHewson/snips/main/''"
  by (simp add: marker_def DEFAULT_CONFIG_def)

lemma apiUrl_default:
  "apiUrl DEFAULT_CONFIG path =
     ''https://api.github.com/repos/PVHewson/snips/contents/'' @ path @ ''?ref=main''"
  by (simp add: apiUrl_def DEFAULT_CONFIG_def encodeURIComponent_main)

lemma fetchViaGithubApi_no_path:
  assumes "\<not> prefix (marker cfg) u \<or> u = marker cfg"
  shows "fetchViaGithubApi p cfg u token = (Inl cannot_map, [])"
  using assms by (auto simp: fetchViaGithubApi_def falsy_def Let_def)

lemma fetchViaGithubApi_requests:
  "snd (fetchViaGithubApi p cfg u token) = [] \<or>
   snd (fetchViaGithubApi p cfg u token) =
     [\<lparr>url = apiUrl cfg (drop (length (marker cfg)) u), headers = getGithubHeaders token\<rparr>]"
  by (auto simp: fetchViaGithubApi_def falsy_def the_string_def Let_def split: sum.splits)

lemma fetchViaGithubApi_sent:
  assumes "snd (fetchViaGithubApi p cfg u token) \<noteq> []"
  shows "prefix (marker cfg) u \<and> u \<noteq> marker cfg"
proof (rule ccontr)
  assume "\<not> (prefix (marker cfg) u \<and> u \<noteq> marker cfg)"
  then have "\<not> prefix (marker cfg) u \<or> u = marker cfg" by blast
  then have "fetchViaGithubApi p cfg u token = (Inl cannot_map, [])"
    by (rule fetchViaGithubApi_no_path)
  with assms show False by simp
qed

text \<open>
  Claim C4. When the raw host answers: on a success status \<^verbatim>\<open>fetchTextWithFallback\<close>
  returns the body and the raw request is the only one it sends; on any other status it
  goes on to \<^verbatim>\<open>fetchViaGithubApi\<close> exactly when the status is 401, 403 or 404 and
  the stored token is not empty, and otherwise it fails at once, having sent the raw
  request only, with the error whose message holds the status and, when there is one,
  the text of the body. A second request is sent only in the fallback case.
\<close>

theorem fetchTextWithFallback_policy:
  assumes "fetch p \<lparr>url = u, headers = []\<rparr> = Inr res"
  shows "(ok res \<longrightarrow>
            fetchTextWithFallback p cfg u = (body res, [\<lparr>url = u, headers = []\<rparr>])) \<and>
         (\<not> ok res \<and> status res \<in> {401, 403, 404} \<and> getToken p \<noteq> [] \<longrightarrow>
            fetchTextWithFallback p cfg u =
              (fst (fetchViaGithubApi p cfg u (getToken p)),
               \<lparr>url = u, headers = []\<rparr> # snd (fetchViaGithubApi p cfg u (getToken p)))) \<and>
         (\<not> ok res \<and> \<not> (status res \<in> {401, 403, 404} \<and> getToken p \<noteq> []) \<longrightarrow>
            fetchTextWithFallback p cfg u =
              (Inl (fetch_failed res u), [\<lparr>url = u, headers = []\<rparr>]) \<and>
            message (fetch_failed res u) =
              ''Fetch failed ('' @ show_nat (status res) @ '') for '' @ u @ [newline] @
              (if safeRead res \<noteq> [] then ''Details: '' @ safeRead res else [])) \<and>
         (snd (fetchTextWithFallback p cfg u) \<noteq> [\<lparr>url = u, headers = []\<rparr>] \<longrightarrow>
            \<not> ok res \<and> status res \<in> {401, 403, 404} \<and> getToken p \<noteq> [])"
  using assms
  by (auto simp: fetchTextWithFallback_def Let_def fetch_failed_def details_def split: prod.splits)

text \<open>
  Claim C6. For a URL that does not begin with the marker
  \<^verbatim>\<open>https://raw.githubusercontent.com/<owner>/<repo>/<ref>/\<close>, the fallback of the
  worker and that of the DevTools runner fail with the error
  \<^verbatim>\<open>Could not map raw URL to repo path for API fallback.\<close> and send no request;
  a request to the API is sent only for a URL that begins with the marker.
\<close>

theorem fallback_needs_marker_prefix:
  "(\<not> prefix (marker cfg) u \<longrightarrow>
      fetchViaGithubApi p cfg u token = (Inl cannot_map, []) \<and>
      fetchViaGithubApi_devtools p cfg githubToken u = (Inl cannot_map, [])) \<and>
   (snd (fetchViaGithubApi p cfg u token) \<noteq> [] \<longrightarrow> prefix (marker cfg) u) \<and>
   (snd (fetchViaGithubApi_devtools p cfg githubToken u) \<noteq> [] \<longrightarrow> prefix (marker cfg) u) \<and>
   message cannot_map = ''Could not map raw URL to repo path for API fallback.'' \<and>
   marker cfg =
     ''https://raw.githubusercontent.com/'' @ owner cfg @ ''/'' @ repo cfg @ ''/'' @ ref cfg @ ''/''"
proof -
  have a: "\<not> prefix (marker cfg) u \<Longrightarrow> fetchViaGithubApi p cfg u t = (Inl cannot_map, [])" for t
    by (simp add: fetchViaGithubApi_no_path)
  have b: "snd (fetchViaGithubApi p cfg u t) \<noteq> [] \<Longrightarrow> prefix (marker cfg) u" for t
    using fetchViaGithubApi_sent by blast
  have c: "message cannot_map = ''Could not map raw URL to repo path for API fallback.''"
    by (simp add: cannot_map_def)
  have d: "marker cfg =
     ''https://raw.githubusercontent.com/'' @ owner cfg @ ''/'' @ repo cfg @ ''/'' @ ref cfg @ ''/''"
    by (simp add: marker_def)
  show ?thesis
    unfolding fetchViaGithubApi_devtools_def using a b c d by blast
qed

text \<open>
  What the fallback returns when the API answers with a file whose content is a string:
  the decoded text when the content is not empty.
\<close>

lemma fetchViaGithubApi_decodes:
  assumes "prefix (marker cfg) u" and "path = drop (length (marker cfg)) u" and "path \<noteq> []"
    and "fetch p \<lparr>url = apiUrl cfg path, headers = getGithubHeaders token\<rparr> = Inr res"
    and "ok res" and "res_json p res = Inr json" and "truthy json"
    and "get_prop json ''type'' = JsString ''file''"
    and "get_prop json ''content'' = JsString content"
  shows "fetchViaGithubApi p cfg u token =
           (if content = [] then Inl (non_file path)
            else case atob p (filter (\<lambda>c. c \<noteq> newline) content) of
                   Inl e \<Rightarrow> Inl e
                 | Inr bytes \<Rightarrow> Inr (utf8_decode p bytes),
            [\<lparr>url = apiUrl cfg path, headers = getGithubHeaders token\<rparr>])"
  using assms
  by (simp add: fetchViaGithubApi_def falsy_def the_string_def Let_def decode_content_def)


lemma fetch_samples:
  "fetch public_repo = public_fetch" "fetch private_repo = private_fetch"
  "fetch private_repo_with_token = private_fetch"
  by (simp_all add: public_repo_def private_repo_def private_repo_with_token_def)

text \<open>
  On the private repository with a token the fallback returns the source text of snippet
  \<^verbatim>\<open>a\<close>, decoded from a content with a newline in it.
\<close>

lemma fallback_sample:
  "fetchViaGithubApi private_repo_with_token DEFAULT_CONFIG
       (rawUrl DEFAULT_CONFIG ''snippets/a/run.js'') ''ghp_token'' =
     (Inr ''return 42;'',
      [\<lparr>url = apiUrl DEFAULT_CONFIG ''snippets/a/run.js'',
        headers = getGithubHeaders ''ghp_token''\<rparr>])"
  by (subst fetchViaGithubApi_decodes [where path = "''snippets/a/run.js''"
        and content = "''cmV0dXJu'' @ [newline] @ ''IDQyOw==''"
        and json = "object [(''type'', JsString ''file''),
                            (''content'', JsString (''cmV0dXJu'' @ [newline] @ ''IDQyOw==''))]"
        and res = "\<lparr>status = 200, statusText = ''OK'',
                    body = Inr ''{type:file,content:cmV0dXJu.IDQyOw==}''\<rparr>"])
     (simp_all add: rawUrl_def fetch_samples private_fetch_def answer_def getGithubHeaders_def
        apiUrl_default ok_def res_json_def private_repo_with_token_def private_repo_def
        public_repo_def sample_parse_def sample_atob_def object_def newline_def)

text \<open>
  A file on a public repository is returned from the raw host with one request; on a
  private repository without a token the fetch fails with the status and the body; with
  a token the fallback is taken and returns the text.
\<close>

theorem fetchTextWithFallback_policy_witness:
  "fetchTextWithFallback public_repo DEFAULT_CONFIG (rawUrl DEFAULT_CONFIG ''snippets/a/run.js'') =
     (Inr ''return 42;'', [\<lparr>url = rawUrl DEFAULT_CONFIG ''snippets/a/run.js'', headers = []\<rparr>]) \<and>
   fetchTextWithFallback private_repo DEFAULT_CONFIG (rawUrl DEFAULT_CONFIG ''snippets/a/run.js'') =
     (Inl (Error (''Fetch failed (403) for '' @ rawUrl DEFAULT_CONFIG ''snippets/a/run.js'' @
                  [newline] @ ''Details: denied'')),
      [\<lparr>url = rawUrl DEFAULT_CONFIG ''snippets/a/run.js'', headers = []\<rparr>]) \<and>
   fetchTextWithFallback private_repo_with_token DEFAULT_CONFIG
       (rawUrl DEFAULT_CONFIG ''snippets/a/run.js'') =
     (Inr ''return 42;'',
      [\<lparr>url = rawUrl DEFAULT_CONFIG ''snippets/a/run.js'', headers = []\<rparr>,
       \<lparr>url = apiUrl DEFAULT_CONFIG ''snippets/a/run.js'',
        headers = getGithubHeaders ''ghp_token''\<rparr>])"
  using
    fetchTextWithFallback_policy [of public_repo "rawUrl DEFAULT_CONFIG ''snippets/a/run.js''"
      "\<lparr>status = 200, statusText = ''OK'', body = Inr ''return 42;''\<rparr>" DEFAULT_CONFIG]
    fetchTextWithFallback_policy [of private_repo "rawUrl DEFAULT_CONFIG ''snippets/a/run.js''"
      "\<lparr>status = 403, statusText = ''Forbidden'', body = Inr ''denied''\<rparr>" DEFAULT_CONFIG]
    fetchTextWithFallback_policy [of private_repo_with_token
      "rawUrl DEFAULT_CONFIG ''snippets/a/run.js''"
      "\<lparr>status = 403, statusText = ''Forbidden'', body = Inr ''denied''\<rparr>" DEFAULT_CONFIG]
  by (simp add: fetch_samples getToken_samples public_fetch_def private_fetch_def answer_def
        rawUrl_default ok_def fetch_failed_def safeRead_def details_def show_nat_samples
        fallback_sample [unfolded rawUrl_default])

text \<open>
  A URL on another host cannot be mapped and no request is sent; a URL of the
  repository has the prefix and leads to a request.
\<close>

theorem fallback_needs_marker_prefix_witness:
  "fetchViaGithubApi private_repo_with_token DEFAULT_CONFIG ''https://example.com/run.js''
     ''ghp_token'' = (Inl cannot_map, []) \<and>
   prefix (marker DEFAULT_CONFIG) (rawUrl DEFAULT_CONFIG ''snippets/a/run.js'') \<and>
   snd (fetchViaGithubApi private_repo_with_token DEFAULT_CONFIG
          (rawUrl DEFAULT_CONFIG ''snippets/a/run.js'') ''ghp_token'') \<noteq> []"
proof -
  have sent: "snd (fetchViaGithubApi private_repo_with_token DEFAULT_CONFIG
          (rawUrl DEFAULT_CONFIG ''snippets/a/run.js'') ''ghp_token'') \<noteq> []"
    by (simp add: fetchViaGithubApi_def rawUrl_def falsy_def the_string_def Let_def
          split: sum.splits)
  have "\<not> prefix (marker DEFAULT_CONFIG) ''https://example.com/run.js''"
    by (simp add: marker_default)
  with sent show ?thesis
    using fallback_needs_marker_prefix [of DEFAULT_CONFIG "''https://example.com/run.js''"
        private_repo_with_token "''ghp_token''" "''prompt''"]
      fallback_needs_marker_prefix [of DEFAULT_CONFIG "rawUrl DEFAULT_CONFIG ''snippets/a/run.js''"
        private_repo_with_token "''ghp_token''" "''prompt''"]
    by blast
qed

text \<open>
  Claim C7, at the empty text. Its UTF-8 encoding has no bytes and the base64 encoding of
  that is the empty string, so the API answers an empty file with type \<^verbatim>\<open>file\<close>
  and content \<^verbatim>\<open>""\<close>. The test \<^verbatim>\<open>!json.content\<close> takes the empty string for
  a missing field, and the fallback fails with the error for content that is not a file
  instead of returning the empty text, which the raw host's path does return for the
  same file.
\<close>

theorem fallback_rejects_empty_file:
  "fetchViaGithubApi private_repo_with_token DEFAULT_CONFIG
       (rawUrl DEFAULT_CONFIG ''snippets/e/README.md'') ''ghp_token'' =
     (Inl (Error ''GitHub API returned non-file content for snippets/e/README.md''),
      [\<lparr>url = apiUrl DEFAULT_CONFIG ''snippets/e/README.md'',
        headers = getGithubHeaders ''ghp_token''\<rparr>]) \<and>
   fetchTextWithFallback public_repo DEFAULT_CONFIG
       (rawUrl DEFAULT_CONFIG ''snippets/e/README.md'') =
     (Inr [], [\<lparr>url = rawUrl DEFAULT_CONFIG ''snippets/e/README.md'', headers = []\<rparr>])"
proof -
  have "fetchViaGithubApi private_repo_with_token DEFAULT_CONFIG
       (rawUrl DEFAULT_CONFIG ''snippets/e/README.md'') ''ghp_token'' =
     (Inl (non_file ''snippets/e/README.md''),
      [\<lparr>url = apiUrl DEFAULT_CONFIG ''snippets/e/README.md'',
        headers = getGithubHeaders ''ghp_token''\<rparr>])"
    by (subst fetchViaGithubApi_decodes [where path = "''snippets/e/README.md''" and content = "[]"
          and json = "object [(''type'', JsString ''file''), (''content'', JsString [])]"
          and res = "\<lparr>status = 200, statusText = ''OK'', body = Inr ''{type:file,content:}''\<rparr>"])
       (simp_all add: rawUrl_def fetch_samples private_fetch_def answer_def getGithubHeaders_def
          apiUrl_default ok_def res_json_def private_repo_with_token_def private_repo_def
          public_repo_def sample_parse_def object_def)
  moreover have "fetchTextWithFallback public_repo DEFAULT_CONFIG
       (rawUrl DEFAULT_CONFIG ''snippets/e/README.md'') =
     (Inr [], [\<lparr>url = rawUrl DEFAULT_CONFIG ''snippets/e/README.md'', headers = []\<rparr>])"
    by (simp add: fetchTextWithFallback_def fetch_samples public_fetch_def answer_def
          rawUrl_default ok_def Let_def)
  ultimately show ?thesis by (simp add: non_file_def)
qed

text \<open>The two paths disagree on the empty file.\<close>

theorem fallback_rejects_empty_file_witness:
  "fst (fetchViaGithubApi private_repo_with_token DEFAULT_CONFIG
          (rawUrl DEFAULT_CONFIG ''snippets/e/README.md'') ''ghp_token'') \<noteq>
   fst (fetchTextWithFallback public_repo DEFAULT_CONFIG
          (rawUrl DEFAULT_CONFIG ''snippets/e/README.md''))"
  using fallback_rejects_empty_file by simp

section \<open>Sorting the manifest\<close>

lemma mset_insert_pure: "mset (insert_pure c x ys) = add_mset x (mset ys)"
  by (induction ys) auto

lemma mset_sort_pure: "mset (sort_pure c xs) = mset xs"
  by (induction xs) (auto simp: mset_insert_pure)

lemma set_insert_pure: "set (insert_pure c x ys) = insert x (set ys)"
  by (induction ys) auto

lemma set_sort_pure: "set (sort_pure c xs) = set xs"
  by (induction xs) (auto simp: set_insert_pure)

lemma insert_by_pure:
  assumes "\<forall>y\<in>set ys. cmp x y = Inr (c x y)"
  shows "insert_by cmp x ys = Inr (insert_pure (\<lambda>a b. - c a b) x ys)"
  using assms by (induction ys) auto

lemma sort_from_pure:
  assumes "\<forall>x\<in>set xs. \<forall>y\<in>set xs. cmp x y = Inr (c x y)"
  shows "sort_from cmp xs = Inr (sort_pure (\<lambda>a b. - c a b) xs)"
  using assms
proof (induction xs)
  case Nil
  then show ?case by simp
next
  case (Cons x xs)
  then have "sort_from cmp xs = Inr (sort_pure (\<lambda>a b. - c a b) xs)" by simp
  moreover have "insert_by cmp x (sort_pure (\<lambda>a b. - c a b) xs) =
      Inr (insert_pure (\<lambda>a b. - c a b) x (sort_pure (\<lambda>a b. - c a b) xs))"
    using Cons.prems by (intro insert_by_pure) (simp add: set_sort_pure)
  ultimately show ?case by simp
qed

lemma sort_by_pure:
  assumes "\<forall>x\<in>set xs. \<forall>y\<in>set xs. cmp x y = Inr (c x y)"
  shows "sort_by cmp xs = Inr (rev (sort_pure (\<lambda>a b. - c a b) (rev xs)))"
  using assms by (simp add: sort_by_def sort_from_pure [where c = c])

lemma consistent_on_neg:
  assumes "consistent_on c S"
  shows "consistent_on (\<lambda>a b. - c a b) S"
proof -
  have anti: "\<And>a b. a \<in> S \<Longrightarrow> b \<in> S \<Longrightarrow> (c a b < 0 \<longleftrightarrow> 0 < c b a)"
    and trans: "\<And>a b d. a \<in> S \<Longrightarrow> b \<in> S \<Longrightarrow> d \<in> S \<Longrightarrow> c a b \<le> 0 \<Longrightarrow> c b d \<le> 0 \<Longrightarrow> c a d \<le> 0"
    using assms unfolding consistent_on_def by blast+
  have flip: "0 \<le> c a b \<longleftrightarrow> c b a \<le> 0" if "a \<in> S" "b \<in> S" for a b
    using anti [OF that] by linarith
  have "- c a d \<le> 0" if "a \<in> S" "b \<in> S" "d \<in> S" "- c a b \<le> 0" "- c b d \<le> 0" for a b d
  proof -
    have "c d b \<le> 0" "c b a \<le> 0" using that flip by simp_all
    then have "c d a \<le> 0" using trans that by blast
    then show ?thesis using flip that by simp
  qed
  moreover have "- c a b < 0 \<longleftrightarrow> 0 < - c b a" if "a \<in> S" "b \<in> S" for a b
    using anti [OF that(2,1)] by simp
  ultimately show ?thesis unfolding consistent_on_def by blast
qed

lemma sorted_insert_pure:
  assumes "consistent_on c S" and "f x \<in> S" and "f ` set ys \<subseteq> S"
    and "sorted_wrt (\<lambda>a b. c (f a) (f b) \<le> 0) ys"
  shows "sorted_wrt (\<lambda>a b. c (f a) (f b) \<le> 0) (insert_pure (\<lambda>a b. c (f a) (f b)) x ys)"
  using assms(3,4)
proof (induction ys)
  case Nil
  then show ?case by simp
next
  case (Cons y ys)
  have anti: "\<And>a b. a \<in> S \<Longrightarrow> b \<in> S \<Longrightarrow> (c a b < 0 \<longleftrightarrow> 0 < c b a)"
    and trans: "\<And>a b d. a \<in> S \<Longrightarrow> b \<in> S \<Longrightarrow> d \<in> S \<Longrightarrow> c a b \<le> 0 \<Longrightarrow> c b d \<le> 0 \<Longrightarrow> c a d \<le> 0"
    using assms(1) unfolding consistent_on_def by blast+
  have yS: "f y \<in> S" and ysS: "f ` set ys \<subseteq> S" using Cons.prems(1) by auto
  show ?case
  proof (cases "c (f x) (f y) \<le> 0")
    case True
    have "\<forall>z\<in>set ys. c (f x) (f z) \<le> 0"
    proof
      fix z assume z: "z \<in> set ys"
      then have "c (f y) (f z) \<le> 0" using Cons.prems(2) by simp
      moreover have "f z \<in> S" using z ysS by auto
      ultimately show "c (f x) (f z) \<le> 0" using trans [OF assms(2) yS _ True] by blast
    qed
    with True Cons.prems(2) show ?thesis by simp
  next
    case False
    then have "0 < c (f x) (f y)" by simp
    then have yx: "c (f y) (f x) \<le> 0" using anti [OF yS assms(2)] by simp
    have IH: "sorted_wrt (\<lambda>a b. c (f a) (f b) \<le> 0) (insert_pure (\<lambda>a b. c (f a) (f b)) x ys)"
      using Cons.IH ysS Cons.prems(2) by simp
    have "\<forall>z\<in>set (insert_pure (\<lambda>a b. c (f a) (f b)) x ys). c (f y) (f z) \<le> 0"
      using yx Cons.prems(2) by (simp add: set_insert_pure)
    with False IH show ?thesis by simp
  qed
qed

lemma sorted_sort_pure:
  assumes "consistent_on c S" and "f ` set xs \<subseteq> S"
  shows "sorted_wrt (\<lambda>a b. c (f a) (f b) \<le> 0) (sort_pure (\<lambda>a b. c (f a) (f b)) xs)"
  using assms(2)
proof (induction xs)
  case Nil
  then show ?case by simp
next
  case (Cons x xs)
  then show ?case
    using sorted_insert_pure [OF assms(1), of f x "sort_pure (\<lambda>a b. c (f a) (f b)) xs"]
    by (simp add: set_sort_pure)
qed

lemma filter_insert_pure:
  assumes "consistent_on c S" and "f x \<in> S" and "f ` set ys \<subseteq> S" and "k \<in> S"
  shows "filter (\<lambda>y. c (f y) k = 0) (insert_pure (\<lambda>a b. c (f a) (f b)) x ys) =
         filter (\<lambda>y. c (f y) k = 0) (x # ys)"
  using assms(3)
proof (induction ys)
  case Nil
  then show ?case by simp
next
  case (Cons y ys)
  have anti: "\<And>a b. a \<in> S \<Longrightarrow> b \<in> S \<Longrightarrow> (c a b < 0 \<longleftrightarrow> 0 < c b a)"
    and trans: "\<And>a b d. a \<in> S \<Longrightarrow> b \<in> S \<Longrightarrow> d \<in> S \<Longrightarrow> c a b \<le> 0 \<Longrightarrow> c b d \<le> 0 \<Longrightarrow> c a d \<le> 0"
    using assms(1) unfolding consistent_on_def by blast+
  have yS: "f y \<in> S" and ysS: "f ` set ys \<subseteq> S" using Cons.prems(1) by auto
  show ?case
  proof (cases "c (f x) (f y) \<le> 0")
    case True
    then show ?thesis by simp
  next
    case False
    have not_both: "\<not> (c (f x) k = 0 \<and> c (f y) k = 0)"
    proof
      assume tie: "c (f x) k = 0 \<and> c (f y) k = 0"
      then have "\<not> c (f y) k < 0" by simp
      then have "c k (f y) \<le> 0" using anti [OF yS assms(4)] by simp
      moreover have "c (f x) k \<le> 0" using tie by simp
      ultimately have "c (f x) (f y) \<le> 0" using trans [OF assms(2) assms(4) yS] by blast
      with False show False by simp
    qed
    have "filter (\<lambda>y. c (f y) k = 0) (insert_pure (\<lambda>a b. c (f a) (f b)) x ys) =
          filter (\<lambda>y. c (f y) k = 0) (x # ys)"
      using Cons.IH ysS by simp
    with False not_both show ?thesis by auto
  qed
qed

lemma filter_sort_pure:
  assumes "consistent_on c S" and "f ` set xs \<subseteq> S" and "k \<in> S"
  shows "filter (\<lambda>y. c (f y) k = 0) (sort_pure (\<lambda>a b. c (f a) (f b)) xs) = filter (\<lambda>y. c (f y) k = 0) xs"
  using assms(2)
proof (induction xs)
  case Nil
  then show ?case by simp
next
  case (Cons x xs)
  then have "f x \<in> S" and sub: "f ` set (sort_pure (\<lambda>a b. c (f a) (f b)) xs) \<subseteq> S"
    by (simp_all add: set_sort_pure)
  from filter_insert_pure [OF assms(1) this assms(3)] Cons show ?case by simp
qed

lemma compareNames_sortable:
  assumes "sortable a" and "sortable b"
  shows "compareNames p a b = Inr (localeCompare p (nameText a) (nameText b))"
  using assms
  by (cases "nameOrEmpty a")
     (auto simp: compareNames_def sortable_def nameText_def)


lemma get_prop_array_truthy: "get_prop m k = JsArray xs \<Longrightarrow> truthy m"
  by (cases m) simp_all

text \<open>The sorted arrangement of a list, for a comparator that does not throw.\<close>

lemma sorted_arrangement:
  assumes "consistent_on c S" and "f ` set xs \<subseteq> S"
  defines "ss \<equiv> rev (sort_pure (\<lambda>a b. - c (f a) (f b)) (rev xs))"
  shows "mset ss = mset xs"
    and "sorted_wrt (\<lambda>a b. c (f a) (f b) \<le> 0) ss"
    and "k \<in> S \<Longrightarrow> filter (\<lambda>y. c (f y) k = 0) ss = filter (\<lambda>y. c (f y) k = 0) xs"
proof -
  have anti: "\<And>a b. a \<in> S \<Longrightarrow> b \<in> S \<Longrightarrow> (c a b < 0 \<longleftrightarrow> 0 < c b a)"
    using assms(1) unfolding consistent_on_def by blast
  have sub: "f ` set (rev xs) \<subseteq> S" using assms(2) by simp
  show "mset ss = mset xs" by (simp add: ss_def mset_sort_pure)
  have "sorted_wrt (\<lambda>a b. - c (f a) (f b) \<le> 0) (sort_pure (\<lambda>a b. - c (f a) (f b)) (rev xs))"
    using sorted_sort_pure [OF consistent_on_neg [OF assms(1)] sub] by simp
  then have "sorted_wrt (\<lambda>a b. - c (f b) (f a) \<le> 0) ss"
    by (simp add: ss_def sorted_wrt_rev)
  moreover have "a \<in> set ss \<Longrightarrow> b \<in> set ss \<Longrightarrow> - c (f b) (f a) \<le> 0 \<Longrightarrow> c (f a) (f b) \<le> 0"
    for a b
  proof -
    assume that: "a \<in> set ss" "b \<in> set ss" "- c (f b) (f a) \<le> 0"
    have fa: "f a \<in> S" and fb: "f b \<in> S"
      using that(1,2) assms(2) by (auto simp: ss_def set_sort_pure)
    from anti [OF fa fb] anti [OF fb fa] that(3) show ?thesis by linarith
  qed
  ultimately show "sorted_wrt (\<lambda>a b. c (f a) (f b) \<le> 0) ss"
    by (rule sorted_wrt_mono_rel [rotated]) blast
  show "filter (\<lambda>y. c (f y) k = 0) ss = filter (\<lambda>y. c (f y) k = 0) xs" if "k \<in> S"
    using filter_sort_pure [OF consistent_on_neg [OF assms(1)] sub that]
    by (simp add: ss_def rev_filter [symmetric])
qed

lemma falsy_first:
  assumes "sorted_wrt (\<lambda>a b. P b \<longrightarrow> P a) xs"
  shows "xs = filter P xs @ filter (\<lambda>x. \<not> P x) xs"
  using assms
proof (induction xs)
  case Nil
  then show ?case by simp
next
  case (Cons x xs)
  show ?case
  proof (cases "P x")
    case True
    with Cons show ?thesis by simp
  next
    case False
    with Cons.prems have "\<forall>y\<in>set xs. \<not> P y" by auto
    then have "filter P xs = []" "filter (\<lambda>x. \<not> P x) xs = xs" by (simp_all add: filter_empty_conv)
    with False show ?thesis by simp
  qed
qed

lemma nameless_first:
  assumes "consistent_on c S" and "f ` set xs \<subseteq> S" and "set ss = set xs"
    and "sorted_wrt (\<lambda>a b. c (f a) (f b) \<le> 0) ss"
    and "\<And>k. k \<in> S \<Longrightarrow> filter (\<lambda>y. c (f y) k = 0) ss = filter (\<lambda>y. c (f y) k = 0) xs"
    and "\<forall>s\<in>f ` set xs. s \<noteq> [] \<longrightarrow> c [] s < 0"
  shows "ss = filter (\<lambda>x. f x = []) xs @ filter (\<lambda>x. f x \<noteq> []) ss"
proof -
  have anti: "\<And>a b. a \<in> S \<Longrightarrow> b \<in> S \<Longrightarrow> (c a b < 0 \<longleftrightarrow> 0 < c b a)"
    using assms(1) unfolding consistent_on_def by blast
  have "sorted_wrt (\<lambda>a b. f b = [] \<longrightarrow> f a = []) ss"
  proof (rule sorted_wrt_mono_rel [OF _ assms(4)])
    fix a b assume ab: "a \<in> set ss" "b \<in> set ss" "c (f a) (f b) \<le> 0"
    show "f b = [] \<longrightarrow> f a = []"
    proof (intro impI, rule ccontr)
      assume b: "f b = []" and a: "f a \<noteq> []"
      have "f a \<in> S" "[] \<in> S" using ab(1,2) b assms(2,3) by force+
      moreover have "c [] (f a) < 0" using assms(6) a ab(1) assms(3) by auto
      ultimately have "0 < c (f a) []" using anti by blast
      with ab(3) b show False by simp
    qed
  qed
  then have split: "ss = filter (\<lambda>x. f x = []) ss @ filter (\<lambda>x. f x \<noteq> []) ss"
    by (rule falsy_first)
  have "filter (\<lambda>x. f x = []) ss = filter (\<lambda>x. f x = []) xs"
  proof (cases "[] \<in> f ` set xs")
    case False
    then have none: "\<forall>x\<in>set xs. f x \<noteq> []" by force
    then have "filter (\<lambda>x. f x = []) xs = []" by (simp add: filter_empty_conv)
    moreover from none assms(3) have "filter (\<lambda>x. f x = []) ss = []"
      by (simp add: filter_empty_conv)
    ultimately show ?thesis by simp
  next
    case True
    then have eS: "[] \<in> S" using assms(2) by auto
    have tie: "c (f y) [] = 0 \<longleftrightarrow> f y = []" if "y \<in> set xs" for y
    proof
      assume "f y = []"
      then show "c (f y) [] = 0" using anti [OF eS eS] by (cases "c [] [] < 0") auto
    next
      assume z: "c (f y) [] = 0"
      show "f y = []"
      proof (rule ccontr)
        assume n: "f y \<noteq> []"
        have "f y \<in> S" using that assms(2) by auto
        moreover have "c [] (f y) < 0" using assms(6) n that by auto
        ultimately have "0 < c (f y) []" using anti eS by blast
        with z show False by simp
      qed
    qed
    have "filter (\<lambda>x. f x = []) ss = filter (\<lambda>y. c (f y) [] = 0) ss"
      using tie assms(3) by (intro filter_cong) auto
    also have "\<dots> = filter (\<lambda>y. c (f y) [] = 0) xs" by (rule assms(5) [OF eS])
    also have "\<dots> = filter (\<lambda>x. f x = []) xs"
      using tie by (intro filter_cong) auto
    finally show ?thesis .
  qed
  with split show ?thesis by simp
qed

text \<open>
  Claim C3, amended. For a manifest whose \<^verbatim>\<open>snippets\<close> field is an array of
  entries that can be sorted, and a \<^verbatim>\<open>localeCompare\<close> that is consistent on their
  names: the worker answers with a list that has the same entries and the same length,
  is ordered by \<^verbatim>\<open>localeCompare\<close> on the names, a missing or empty name being the
  empty string, and keeps entries whose names compare equal in the order of the
  manifest; the popup keeps that list. Where \<^verbatim>\<open>localeCompare\<close> puts the empty
  string before every other name of the manifest, the entries with an empty or missing
  name come first, in the order of the manifest. Two entries of which
  \<^verbatim>\<open>localeCompare\<close> puts the second first are swapped: where it puts
  \<^verbatim>\<open>alpha\<close> before \<^verbatim>\<open>Beta\<close>, the manifest \<^verbatim>\<open>[Beta, alpha]\<close> is loaded as
  \<^verbatim>\<open>[alpha, Beta]\<close>. Case is ignored as far as \<^verbatim>\<open>localeCompare\<close> ignores it,
  and no further.
\<close>

theorem load_manifest_sorted:
  assumes "fst (fetchTextWithFallback p (getConfig p)
             (rawUrl (getConfig p) (manifestPath (getConfig p)))) = Inr text"
    and "JSON_parse p text = Inr manifest"
    and "get_prop manifest ''snippets'' = JsArray entries"
    and "\<forall>x\<in>set entries. sortable x"
    and "consistent_on (localeCompare p) (nameText ` set entries)"
  shows "\<exists>ss. onMessage_LOAD_MANIFEST p =
                BgOk \<lparr>snippets = ss,
                      manifestUrl = rawUrl (getConfig p) (manifestPath (getConfig p))\<rparr> \<and>
              loadManifest (onMessage_LOAD_MANIFEST p) = Some (Inr ss) \<and>
              length ss = length entries \<and>
              mset ss = mset entries \<and>
              sorted_wrt (\<lambda>a b. localeCompare p (nameText a) (nameText b) \<le> 0) ss \<and>
              (\<forall>k\<in>set entries.
                 filter (\<lambda>y. localeCompare p (nameText y) (nameText k) = 0) ss =
                 filter (\<lambda>y. localeCompare p (nameText y) (nameText k) = 0) entries) \<and>
              ((\<forall>s\<in>nameText ` set entries. s \<noteq> [] \<longrightarrow> localeCompare p [] s < 0) \<longrightarrow>
                 ss = filter (\<lambda>x. nameText x = []) entries @
                      filter (\<lambda>x. nameText x \<noteq> []) ss) \<and>
              (\<forall>x y. entries = [x, y] \<and> 0 < localeCompare p (nameText x) (nameText y) \<longrightarrow>
                 ss = [y, x]) \<and>
              (\<forall>x y. entries = [x, y] \<and> nameText x = ''Beta'' \<and> nameText y = ''alpha'' \<and>
                 localeCompare p ''alpha'' ''Beta'' < 0 \<longrightarrow> ss = [y, x])"
proof -
  let ?S = "nameText ` set entries"
  let ?ss = "rev (sort_pure (\<lambda>a b. - localeCompare p (nameText a) (nameText b)) (rev entries))"
  have anti: "\<And>a b. a \<in> ?S \<Longrightarrow> b \<in> ?S \<Longrightarrow>
      (localeCompare p a b < 0 \<longleftrightarrow> 0 < localeCompare p b a)"
    using assms(5) unfolding consistent_on_def by blast
  have "sort_by (compareNames p) entries = Inr ?ss"
    using assms(4)
    by (intro sort_by_pure [where c = "\<lambda>a b. localeCompare p (nameText a) (nameText b)"])
       (simp add: compareNames_sortable)
  then have load: "load_manifest p =
      Inr \<lparr>snippets = ?ss, manifestUrl = rawUrl (getConfig p) (manifestPath (getConfig p))\<rparr>"
    using assms(1-3) get_prop_array_truthy [OF assms(3)]
    by (simp add: load_manifest_def Let_def)
  have msg: "onMessage_LOAD_MANIFEST p =
      BgOk \<lparr>snippets = ?ss, manifestUrl = rawUrl (getConfig p) (manifestPath (getConfig p))\<rparr>"
    by (simp add: onMessage_LOAD_MANIFEST_def respond_def load)
  have popup: "loadManifest (onMessage_LOAD_MANIFEST p) = Some (Inr ?ss)"
    by (simp add: msg loadManifest_def)
  note arr = sorted_arrangement [OF assms(5) subset_refl]
  have perm: "mset ?ss = mset entries" by (rule arr(1))
  then have len: "length ?ss = length entries" by (rule mset_eq_length)
  have sorted: "sorted_wrt (\<lambda>a b. localeCompare p (nameText a) (nameText b) \<le> 0) ?ss"
    by (rule arr(2))
  have stable: "filter (\<lambda>y. localeCompare p (nameText y) k = 0) ?ss =
      filter (\<lambda>y. localeCompare p (nameText y) k = 0) entries" if "k \<in> ?S" for k
    using that by (rule arr(3))
  have stable': "\<forall>k\<in>set entries.
      filter (\<lambda>y. localeCompare p (nameText y) (nameText k) = 0) ?ss =
      filter (\<lambda>y. localeCompare p (nameText y) (nameText k) = 0) entries"
    using stable by simp
  have first: "(\<forall>s\<in>?S. s \<noteq> [] \<longrightarrow> localeCompare p [] s < 0) \<longrightarrow>
      ?ss = filter (\<lambda>x. nameText x = []) entries @ filter (\<lambda>x. nameText x \<noteq> []) ?ss"
  proof
    assume "\<forall>s\<in>?S. s \<noteq> [] \<longrightarrow> localeCompare p [] s < 0"
    moreover have "set ?ss = set entries" using perm by (rule mset_eq_setD)
    ultimately show "?ss = filter (\<lambda>x. nameText x = []) entries @
        filter (\<lambda>x. nameText x \<noteq> []) ?ss"
      using nameless_first [OF assms(5) subset_refl _ sorted stable] by blast
  qed
  have pair: "?ss = [y, x]"
    if "entries = [x, y]" "0 < localeCompare p (nameText x) (nameText y)" for x y
  proof -
    have "localeCompare p (nameText y) (nameText x) < 0"
      using anti [of "nameText y" "nameText x"] that by simp
    with that(1) show ?thesis by simp
  qed
  have example: "?ss = [y, x]"
    if "entries = [x, y]" "nameText x = ''Beta''" "nameText y = ''alpha''"
      "localeCompare p ''alpha'' ''Beta'' < 0" for x y
    using that by simp
  from msg popup perm len sorted stable' first pair example show ?thesis by blast
qed

text \<open>
  Claim C5. When the text fetched for the manifest does not parse, or parses to a value
  that is falsy or has no array under \<^verbatim>\<open>snippets\<close>, loading the manifest fails:
  the worker answers with the message of the error, which is the parser's error in the
  first case and the error about the shape of the manifest in the second, and
  \<^verbatim>\<open>loadManifest\<close> of the popup throws it. No list is returned.
\<close>

theorem load_manifest_rejects:
  assumes "fst (fetchTextWithFallback p (getConfig p)
             (rawUrl (getConfig p) (manifestPath (getConfig p)))) = Inr text"
    and "(\<exists>e. JSON_parse p text = Inl e) \<or>
         (\<exists>m. JSON_parse p text = Inr m \<and> (\<not> truthy m \<or> \<not> isArray (get_prop m ''snippets'')))"
  shows "\<exists>e. load_manifest p = Inl e \<and>
             onMessage_LOAD_MANIFEST p = BgError (message e) \<and>
             loadManifest (onMessage_LOAD_MANIFEST p) = Some (Inl (Error (message e))) \<and>
             (\<forall>e'. JSON_parse p text = Inl e' \<longrightarrow> e = e') \<and>
             (\<forall>m. JSON_parse p text = Inr m \<longrightarrow> e = bad_manifest)"
  using assms
  by (auto simp: load_manifest_def onMessage_LOAD_MANIFEST_def respond_def loadManifest_def Let_def)


lemma getConfig_samples:
  "getConfig public_repo = DEFAULT_CONFIG" "getConfig (serving text) = DEFAULT_CONFIG"
  by (simp_all add: getConfig_def public_repo_def serving_def)

lemma manifestPath_default: "manifestPath DEFAULT_CONFIG = ''snippets/manifest.json''"
  by (simp add: DEFAULT_CONFIG_def)

lemma fetch_manifest_samples:
  "fst (fetchTextWithFallback public_repo DEFAULT_CONFIG
          (rawUrl DEFAULT_CONFIG ''snippets/manifest.json'')) = Inr ''{snippets:[Beta,alpha]}''"
  "fst (fetchTextWithFallback (serving text) DEFAULT_CONFIG u) = Inr text"
  by (simp_all add: fetchTextWithFallback_def Let_def public_repo_def serving_def public_fetch_def
        answer_def ok_def)

lemma parse_samples:
  "JSON_parse public_repo = sample_parse" "JSON_parse (serving text) = sample_parse"
  "localeCompare public_repo = letters_compare" "localeCompare (serving text) = letters_compare"
  "TypeError public_repo = Error ''TypeError''" "TypeError (serving text) = Error ''TypeError''"
  by (simp_all add: public_repo_def serving_def)

lemma letters_compare_samples:
  "letters_compare ''Beta'' ''alpha'' = 1" "letters_compare ''alpha'' ''Beta'' = - 1"
  "letters_compare ''Alpha'' ''alpha'' = 1" "letters_compare ''alpha'' ''Alpha'' = - 1"
  "letters_compare ''alpha'' ''alpha'' = 0" "letters_compare ''Alpha'' ''Alpha'' = 0"
  "letters_compare ''Beta'' ''Beta'' = 0" "letters_compare [] [] = 0"
  "letters_compare [] ''alpha'' = - 1" "letters_compare ''alpha'' [] = 1"
  "letters_compare [] ''Beta'' = - 1" "letters_compare ''Beta'' [] = 1"
  by (simp_all add: letters_compare_def toLowerCase_def lower_char_def codes_def Let_def)

lemma nameText_samples:
  "nameText beta = ''Beta''" "nameText alpha = ''alpha''"
  "nameText upper_alpha = ''Alpha''" "nameText lower_alpha = ''alpha''"
  "nameText nameless = []"
  by (simp_all add: nameText_def nameOrEmpty_def logical_or_def beta_def alpha_def
        upper_alpha_def lower_alpha_def nameless_def object_def)

lemma sortable_samples:
  "sortable beta" "sortable alpha" "sortable upper_alpha" "sortable lower_alpha"
  "sortable nameless"
  by (simp_all add: sortable_def nameOrEmpty_def logical_or_def beta_def alpha_def
        upper_alpha_def lower_alpha_def nameless_def object_def)

text \<open>The comparisons the sort makes on the sample manifests: the later entry first.\<close>

lemma compareNames_samples:
  "compareNames public_repo alpha beta = Inr (- 1)"
  "compareNames (serving text) lower_alpha upper_alpha = Inr (- 1)"
  "compareNames (serving text) nameless beta = Inr (- 1)"
  "compareNames (serving text) alpha beta = Inr (- 1)"
  "compareNames (serving text) alpha nameless = Inr 1"
  by (simp_all add: compareNames_sortable sortable_samples nameText_samples parse_samples
        letters_compare_samples)

text \<open>
  The names \<^verbatim>\<open>Alpha\<close> and \<^verbatim>\<open>alpha\<close> are equal when case is ignored, so a
  case-insensitive order that keeps ties in place would leave the manifest
  \<^verbatim>\<open>[Alpha, alpha]\<close> as it is. With a \<^verbatim>\<open>localeCompare\<close> that puts the
  lower-case name first, as the comparator of the samples does, the manifest is loaded as
  \<^verbatim>\<open>[alpha, Alpha]\<close>.
\<close>

theorem load_manifest_case_order:
  "toLowerCase ''Alpha'' = toLowerCase ''alpha'' \<and>
   JSON_parse (serving ''{snippets:[Alpha,alpha]}'') ''{snippets:[Alpha,alpha]}'' =
     Inr (object [(''snippets'', JsArray [upper_alpha, lower_alpha])]) \<and>
   load_manifest (serving ''{snippets:[Alpha,alpha]}'') =
     Inr \<lparr>snippets = [lower_alpha, upper_alpha],
          manifestUrl = rawUrl DEFAULT_CONFIG ''snippets/manifest.json''\<rparr>"
  by (simp add: load_manifest_def getConfig_samples manifestPath_default fetch_manifest_samples
        parse_samples sample_parse_def object_def [of "[(''snippets'', x)]" for x]
        sort_by_def compareNames_samples toLowerCase_def lower_char_def)

text \<open>A manifest whose entries are \<^verbatim>\<open>null\<close> is not loaded: the comparator throws.\<close>

lemma load_manifest_null_entries:
  "load_manifest (serving ''{snippets:[null,null]}'') = Inl (Error ''TypeError'')"
  by (simp add: load_manifest_def getConfig_samples manifestPath_default fetch_manifest_samples
        parse_samples sample_parse_def object_def sort_by_def compareNames_def)

text \<open>
  With the comparator of the samples, which puts \<^verbatim>\<open>alpha\<close> before \<^verbatim>\<open>Beta\<close>
  and the empty string before both, the manifest \<^verbatim>\<open>[Beta, alpha]\<close> is loaded as
  \<^verbatim>\<open>[alpha, Beta]\<close>, and a manifest with an entry without a name between the two
  is loaded with that entry first.
\<close>

theorem load_manifest_sorted_witness:
  "consistent_on letters_compare {''Beta'', ''alpha''} \<and>
   consistent_on letters_compare {''Beta'', [], ''alpha''} \<and>
   sortable beta \<and> sortable nameless \<and> sortable alpha \<and>
   nameText beta = ''Beta'' \<and> nameText nameless = [] \<and> nameText alpha = ''alpha'' \<and>
   letters_compare ''alpha'' ''Beta'' < 0 \<and>
   letters_compare [] ''Beta'' < 0 \<and> letters_compare [] ''alpha'' < 0 \<and>
   onMessage_LOAD_MANIFEST public_repo =
     BgOk \<lparr>snippets = [alpha, beta],
           manifestUrl = rawUrl DEFAULT_CONFIG ''snippets/manifest.json''\<rparr> \<and>
   onMessage_LOAD_MANIFEST (serving ''{snippets:[Beta,{id:c},alpha]}'') =
     BgOk \<lparr>snippets = [nameless, alpha, beta],
           manifestUrl = rawUrl DEFAULT_CONFIG ''snippets/manifest.json''\<rparr>"
proof -
  let ?t = "''{snippets:[Beta,{id:c},alpha]}''"
  have c: "consistent_on letters_compare (nameText ` set [beta, alpha])"
    by (simp add: consistent_on_def nameText_samples letters_compare_samples)
  have s: "\<forall>x\<in>set [beta, alpha]. sortable x"
    by (simp add: sortable_samples)
  have f: "fst (fetchTextWithFallback public_repo (getConfig public_repo)
             (rawUrl (getConfig public_repo) (manifestPath (getConfig public_repo)))) =
           Inr ''{snippets:[Beta,alpha]}''"
    by (simp add: getConfig_samples manifestPath_default fetch_manifest_samples)
  have j: "JSON_parse public_repo ''{snippets:[Beta,alpha]}'' = Inr sample_manifest"
    by (simp add: parse_samples sample_parse_def)
  have g: "get_prop sample_manifest ''snippets'' = JsArray [beta, alpha]"
    by (simp add: sample_manifest_def object_def)
  have l: "localeCompare public_repo ''alpha'' ''Beta'' < 0"
    by (simp add: parse_samples letters_compare_samples)
  have c': "consistent_on letters_compare (nameText ` set [beta, nameless, alpha])"
    by (simp add: consistent_on_def nameText_samples letters_compare_samples)
  have s': "\<forall>x\<in>set [beta, nameless, alpha]. sortable x"
    by (simp add: sortable_samples)
  have f': "fst (fetchTextWithFallback (serving ?t) (getConfig (serving ?t))
             (rawUrl (getConfig (serving ?t)) (manifestPath (getConfig (serving ?t))))) =
           Inr ?t"
    by (simp add: getConfig_samples fetch_manifest_samples)
  have j': "JSON_parse (serving ?t) ?t =
      Inr (object [(''snippets'', JsArray [beta, nameless, alpha])])"
    by (simp add: parse_samples sample_parse_def)
  have g': "get_prop (object [(''snippets'', JsArray [beta, nameless, alpha])]) ''snippets'' =
      JsArray [beta, nameless, alpha]"
    by (simp add: object_def)
  have e: "\<forall>s\<in>nameText ` set [beta, nameless, alpha].
      s \<noteq> [] \<longrightarrow> localeCompare (serving ?t) [] s < 0"
    by (simp add: parse_samples nameText_samples letters_compare_samples)
  have first: "onMessage_LOAD_MANIFEST public_repo =
      BgOk \<lparr>snippets = [alpha, beta],
            manifestUrl = rawUrl DEFAULT_CONFIG ''snippets/manifest.json''\<rparr>"
    using load_manifest_sorted [OF f j g s] c l
    by (auto simp: parse_samples getConfig_samples manifestPath_default nameText_samples)
  obtain ss where ss: "onMessage_LOAD_MANIFEST (serving ?t) =
        BgOk \<lparr>snippets = ss, manifestUrl = rawUrl DEFAULT_CONFIG ''snippets/manifest.json''\<rparr>"
      and perm: "mset ss = mset [beta, nameless, alpha]"
      and sorted: "sorted_wrt (\<lambda>a b. letters_compare (nameText a) (nameText b) \<le> 0) ss"
      and front: "ss = filter (\<lambda>x. nameText x = []) [beta, nameless, alpha] @
                       filter (\<lambda>x. nameText x \<noteq> []) ss"
    using load_manifest_sorted [OF f' j' g' s'] c' e
    by (auto simp: parse_samples getConfig_samples manifestPath_default)
  have second: "onMessage_LOAD_MANIFEST (serving ?t) =
      BgOk \<lparr>snippets = [nameless, alpha, beta],
            manifestUrl = rawUrl DEFAULT_CONFIG ''snippets/manifest.json''\<rparr>"
    by (simp add: onMessage_LOAD_MANIFEST_def respond_def load_manifest_def getConfig_samples
          manifestPath_default fetch_manifest_samples parse_samples sample_parse_def
          object_def [of "[(''snippets'', x)]" for x] sort_by_def compareNames_samples)
  with ss front have "[nameless, alpha, beta] =
      filter (\<lambda>x. nameText x = []) [beta, nameless, alpha] @
      filter (\<lambda>x. nameText x \<noteq> []) [nameless, alpha, beta]"
    by simp
  with first second show ?thesis
    by (simp add: consistent_on_def nameText_samples sortable_samples letters_compare_samples)
qed

text \<open>
  A manifest that is not JSON fails with the parser's message, and the manifest
  \<^verbatim>\<open>{}\<close> with the error about its shape.
\<close>

theorem load_manifest_rejects_witness:
  "onMessage_LOAD_MANIFEST (serving ''<html>'') = BgError ''Unexpected token'' \<and>
   loadManifest (onMessage_LOAD_MANIFEST (serving ''{}'')) = Some (Inl bad_manifest)"
proof -
  have a: "\<exists>e. JSON_parse (serving ''<html>'') ''<html>'' = Inl e"
    and a': "JSON_parse (serving ''<html>'') ''<html>'' = Inl (Error ''Unexpected token'')"
    by (simp_all add: parse_samples sample_parse_def)
  have b: "JSON_parse (serving ''{}'') ''{}'' = Inr (object []) \<and>
           (\<not> truthy (object []) \<or> \<not> isArray (get_prop (object []) ''snippets''))"
    by (simp add: parse_samples sample_parse_def object_def)
  have f: "fst (fetchTextWithFallback (serving t) (getConfig (serving t))
             (rawUrl (getConfig (serving t)) (manifestPath (getConfig (serving t))))) =
           Inr t" for t
    by (simp add: getConfig_samples fetch_manifest_samples)
  show ?thesis
    using load_manifest_rejects [OF f [of "''<html>''"]] load_manifest_rejects [OF f [of "''{}''"]]
      a a' b
    by (auto simp: onMessage_LOAD_MANIFEST_def respond_def bad_manifest_def)
qed

section \<open>Loading the files of a snippet\<close>

lemma promise_all_cases:
  "(\<exists>x. promise_all first a b = Inr x) \<longleftrightarrow> (\<exists>x y. a = Inr x \<and> b = Inr y)"
  "a = Inr x \<Longrightarrow> b = Inr y \<Longrightarrow> promise_all first a b = Inr (x, y)"
  "promise_all first a b = Inl e \<Longrightarrow> a = Inl e \<or> b = Inl e"
  "a = Inl e \<Longrightarrow> b = Inr y \<Longrightarrow> promise_all first a b = Inl e"
  "a = Inr x \<Longrightarrow> b = Inl e \<Longrightarrow> promise_all first a b = Inl e"
  by (auto simp: promise_all_def split: sum.splits if_splits)

text \<open>
  Claim C8. For a descriptor with an \<^verbatim>\<open>id\<close>, where \<^verbatim>\<open>r\<close> and \<^verbatim>\<open>c\<close> are the
  results of fetching the documentation and the source: both texts are returned if and
  only if both fetches succeed, and they are the two texts fetched; a failure is the
  error of one of the two fetches: of the one that failed when the other succeeded, and
  when both failed of the one that failed first, the documentation fetch when
  \<^verbatim>\<open>first\<close> holds and the source fetch otherwise. The paths fetched are \<^verbatim>\<open>readmePath\<close> and \<^verbatim>\<open>entryPath\<close> of the descriptor when
  they are set, and otherwise \<^verbatim>\<open>snippets/<id>/README.md\<close> and
  \<^verbatim>\<open>snippets/<id>/run.js\<close>.
\<close>

theorem load_snippet_files_pair:
  assumes "truthy (get_prop s ''id'')"
    and "r = fst (fetchTextWithFallback p (getConfig p) (rawUrl (getConfig p) (readmePath_of s)))"
    and "c = fst (fetchTextWithFallback p (getConfig p) (rawUrl (getConfig p) (entryPath_of s)))"
  shows "((\<exists>x. load_snippet_files p first s = Inr x) \<longleftrightarrow> (\<exists>rt ct. r = Inr rt \<and> c = Inr ct)) \<and>
         (\<forall>rt ct. r = Inr rt \<and> c = Inr ct \<longrightarrow>
            (\<exists>x. load_snippet_files p first s = Inr x \<and> readme x = rt \<and> code x = ct)) \<and>
         (\<forall>e. load_snippet_files p first s = Inl e \<longrightarrow> r = Inl e \<or> c = Inl e) \<and>
         (\<forall>e ct. r = Inl e \<and> c = Inr ct \<longrightarrow> load_snippet_files p first s = Inl e) \<and>
         (\<forall>e rt. r = Inr rt \<and> c = Inl e \<longrightarrow> load_snippet_files p first s = Inl e) \<and>
         (\<forall>e1 e2. r = Inl e1 \<and> c = Inl e2 \<longrightarrow>
            load_snippet_files p first s = Inl (if first then e1 else e2)) \<and>
         readmePath_of s =
           (if truthy (get_prop s ''readmePath'') then js_String (get_prop s ''readmePath'')
            else ''snippets/'' @ js_String (get_prop s ''id'') @ ''/README.md'') \<and>
         entryPath_of s =
           (if truthy (get_prop s ''entryPath'') then js_String (get_prop s ''entryPath'')
            else ''snippets/'' @ js_String (get_prop s ''id'') @ ''/run.js'')"
proof -
  have l: "load_snippet_files p first s =
      (case promise_all first r c of
         Inl e \<Rightarrow> Inl e
       | Inr (rt, ct) \<Rightarrow>
           Inr \<lparr>readme = rt, code = ct, entryPath = entryPath_of s,
                entryUrl = rawUrl (getConfig p) (entryPath_of s),
                readmeUrl = rawUrl (getConfig p) (readmePath_of s)\<rparr>)"
    using assms by (simp add: load_snippet_files_def Let_def)
  have 1: "(\<exists>x. load_snippet_files p first s = Inr x) \<longleftrightarrow> (\<exists>rt ct. r = Inr rt \<and> c = Inr ct)"
    unfolding l using promise_all_cases(1) [of first r c] by (auto split: sum.splits)
  have 2: "\<forall>rt ct. r = Inr rt \<and> c = Inr ct \<longrightarrow>
            (\<exists>x. load_snippet_files p first s = Inr x \<and> readme x = rt \<and> code x = ct)"
    unfolding l by (auto simp: promise_all_def)
  have 3: "\<forall>e. load_snippet_files p first s = Inl e \<longrightarrow> r = Inl e \<or> c = Inl e"
    unfolding l using promise_all_cases(3) [of first r c] by (auto split: sum.splits)
  have 4: "\<forall>e ct. r = Inl e \<and> c = Inr ct \<longrightarrow> load_snippet_files p first s = Inl e"
    unfolding l by (auto simp: promise_all_def)
  have 5: "\<forall>e rt. r = Inr rt \<and> c = Inl e \<longrightarrow> load_snippet_files p first s = Inl e"
    unfolding l by (auto simp: promise_all_def)
  have 8: "\<forall>e1 e2. r = Inl e1 \<and> c = Inl e2 \<longrightarrow>
            load_snippet_files p first s = Inl (if first then e1 else e2)"
    unfolding l by (auto simp: promise_all_def)
  have 6: "readmePath_of s =
           (if truthy (get_prop s ''readmePath'') then js_String (get_prop s ''readmePath'')
            else ''snippets/'' @ js_String (get_prop s ''id'') @ ''/README.md'')"
    by (simp add: readmePath_of_def logical_or_def default_readmePath_def)
  have 7: "entryPath_of s =
           (if truthy (get_prop s ''entryPath'') then js_String (get_prop s ''entryPath'')
            else ''snippets/'' @ js_String (get_prop s ''id'') @ ''/run.js'')"
    by (simp add: entryPath_of_def logical_or_def default_entryPath_def)
  from 1 2 3 4 5 8 6 7 show ?thesis by blast
qed

lemma paths_samples:
  "readmePath_of beta = ''snippets/a/README.md''" "entryPath_of beta = ''snippets/a/run.js''"
  "readmePath_of snippet_e = ''snippets/e/README.md''" "entryPath_of snippet_e = ''snippets/e/run.js''"
  by (simp_all add: readmePath_of_def entryPath_of_def default_readmePath_def
        default_entryPath_def logical_or_def beta_def snippet_e_def object_def)

lemma fetch_files_samples:
  "fetchTextWithFallback public_repo DEFAULT_CONFIG (rawUrl DEFAULT_CONFIG ''snippets/a/README.md'') =
     (Inr ''# A'', [\<lparr>url = rawUrl DEFAULT_CONFIG ''snippets/a/README.md'', headers = []\<rparr>])"
  "fetchTextWithFallback public_repo DEFAULT_CONFIG (rawUrl DEFAULT_CONFIG ''snippets/a/run.js'') =
     (Inr ''return 42;'', [\<lparr>url = rawUrl DEFAULT_CONFIG ''snippets/a/run.js'', headers = []\<rparr>])"
  "fetchTextWithFallback public_repo DEFAULT_CONFIG (rawUrl DEFAULT_CONFIG ''snippets/e/README.md'') =
     (Inr [], [\<lparr>url = rawUrl DEFAULT_CONFIG ''snippets/e/README.md'', headers = []\<rparr>])"
  "fetchTextWithFallback public_repo DEFAULT_CONFIG (rawUrl DEFAULT_CONFIG ''snippets/e/run.js'') =
     (Inl (Error (''Fetch failed (404) for '' @ rawUrl DEFAULT_CONFIG ''snippets/e/run.js'' @
                  [newline] @ ''Details: 404: Not Found'')),
      [\<lparr>url = rawUrl DEFAULT_CONFIG ''snippets/e/run.js'', headers = []\<rparr>])"
  by (simp_all add: fetchTextWithFallback_def Let_def fetch_samples public_fetch_def answer_def
        rawUrl_def marker_default ok_def fetch_failed_def safeRead_def details_def
        show_nat_samples getToken_samples)

lemma refused_files_samples:
  "getConfig private_repo = DEFAULT_CONFIG"
  "fst (fetchTextWithFallback private_repo DEFAULT_CONFIG u) =
     Inl (Error (''Fetch failed (403) for '' @ u @ [newline] @ ''Details: denied''))"
  by (simp_all add: getConfig_def private_repo_def public_repo_def fetchTextWithFallback_def
        Let_def private_fetch_def answer_def ok_def fetch_failed_def safeRead_def details_def
        show_nat_samples getToken_def trim_def)

text \<open>
  On the public repository the files of snippet \<^verbatim>\<open>a\<close> are both returned; snippet
  \<^verbatim>\<open>e\<close> has a documentation file and no source file, and loading it fails with the
  error of the source fetch. On the private repository without a token both fetches of
  snippet \<^verbatim>\<open>a\<close> are refused, and loading it fails with the error of the one that
  is refused first.
\<close>

theorem load_snippet_files_pair_witness:
  "load_snippet_files public_repo True beta =
     Inr \<lparr>readme = ''# A'', code = ''return 42;'', entryPath = ''snippets/a/run.js'',
          entryUrl = rawUrl DEFAULT_CONFIG ''snippets/a/run.js'',
          readmeUrl = rawUrl DEFAULT_CONFIG ''snippets/a/README.md''\<rparr> \<and>
   load_snippet_files public_repo True snippet_e =
     Inl (Error (''Fetch failed (404) for '' @ rawUrl DEFAULT_CONFIG ''snippets/e/run.js'' @
                 [newline] @ ''Details: 404: Not Found'')) \<and>
   load_snippet_files private_repo True beta =
     Inl (Error (''Fetch failed (403) for '' @ rawUrl DEFAULT_CONFIG ''snippets/a/README.md'' @
                 [newline] @ ''Details: denied'')) \<and>
   load_snippet_files private_repo False beta =
     Inl (Error (''Fetch failed (403) for '' @ rawUrl DEFAULT_CONFIG ''snippets/a/run.js'' @
                 [newline] @ ''Details: denied''))"
proof -
  have a: "truthy (get_prop beta ''id'')" and e: "truthy (get_prop snippet_e ''id'')"
    by (simp_all add: beta_def snippet_e_def object_def)
  note w = load_snippet_files_pair [OF a refl refl, of public_repo True]
    load_snippet_files_pair [OF e refl refl, of public_repo True]
  have 1: "\<exists>x. load_snippet_files public_repo True beta = Inr x \<and> readme x = ''# A'' \<and>
      code x = ''return 42;''"
    using w(1) by (simp add: getConfig_samples paths_samples fetch_files_samples)
  have 2: "load_snippet_files public_repo True snippet_e =
     Inl (Error (''Fetch failed (404) for '' @ rawUrl DEFAULT_CONFIG ''snippets/e/run.js'' @
                 [newline] @ ''Details: 404: Not Found''))"
    using w(2) by (simp add: getConfig_samples paths_samples fetch_files_samples)
  from 1 have "load_snippet_files public_repo True beta =
     Inr \<lparr>readme = ''# A'', code = ''return 42;'', entryPath = ''snippets/a/run.js'',
          entryUrl = rawUrl DEFAULT_CONFIG ''snippets/a/run.js'',
          readmeUrl = rawUrl DEFAULT_CONFIG ''snippets/a/README.md''\<rparr>"
    using a by (auto simp: load_snippet_files_def Let_def getConfig_samples paths_samples
        fetch_files_samples promise_all_def)
  moreover have "load_snippet_files private_repo True beta =
     Inl (Error (''Fetch failed (403) for '' @ rawUrl DEFAULT_CONFIG ''snippets/a/README.md'' @
                 [newline] @ ''Details: denied''))"
    using load_snippet_files_pair [OF a refl refl, of private_repo True]
    by (simp add: refused_files_samples paths_samples)
  moreover have "load_snippet_files private_repo False beta =
     Inl (Error (''Fetch failed (403) for '' @ rawUrl DEFAULT_CONFIG ''snippets/a/run.js'' @
                 [newline] @ ''Details: denied''))"
    using load_snippet_files_pair [OF a refl refl, of private_repo False]
    by (simp add: refused_files_samples paths_samples)
  ultimately show ?thesis using 2 by simp
qed

section \<open>The bulk update\<close>

lemma chunk_loop_total:
  assumes "0 < n"
  shows "\<exists>cs. chunk_loop arr n i out = Some (out @ cs) \<and> concat cs = drop i arr \<and>
              (\<forall>c\<in>set cs. c \<noteq> [] \<and> length c \<le> n)"
proof (induction "length arr - i" arbitrary: i out rule: less_induct)
  case less
  show ?case
  proof (cases "i < length arr")
    case False
    then show ?thesis by (subst chunk_loop.simps) simp
  next
    case True
    with assms have "length arr - (i + n) < length arr - i" by simp
    from less [OF this, of "out @ [take n (drop i arr)]"]
    obtain cs where cs: "chunk_loop arr n (i + n) (out @ [take n (drop i arr)]) =
          Some ((out @ [take n (drop i arr)]) @ cs)"
        "concat cs = drop (i + n) arr" "\<forall>c\<in>set cs. c \<noteq> [] \<and> length c \<le> n"
      by blast
    have "chunk_loop arr n i out = Some (out @ (take n (drop i arr) # cs))"
      using True cs(1) by (subst chunk_loop.simps) simp
    moreover have "concat (take n (drop i arr) # cs) = drop i arr"
      using cs(2) by (simp add: add.commute [of i n] flip: drop_drop)
    moreover have "\<forall>c\<in>set (take n (drop i arr) # cs). c \<noteq> [] \<and> length c \<le> n"
      using cs(3) True assms by auto
    ultimately show ?thesis by blast
  qed
qed

lemma chunk_total:
  assumes "0 < n"
  shows "\<exists>cs. chunk arr n = Some cs \<and> concat cs = arr \<and> (\<forall>c\<in>set cs. c \<noteq> [] \<and> length c \<le> n)"
  using chunk_loop_total [OF assms, of arr 0 "[]"] by (simp add: chunk_def)

lemma updateMultipleChunk_succeeds:
  assumes "succeeds post i c"
  shows "fst (updateMultipleChunk post i c st) = None"
    and "posted (snd (updateMultipleChunk post i c st)) = posted st @ [c]"
    and "processedCount (snd (updateMultipleChunk post i c st)) = processedCount st + length c"
  using assms
  by (auto simp: updateMultipleChunk_def succeeds_def Let_def split: sum.splits)

lemma updateMultipleChunk_fails:
  assumes "\<not> succeeds post i c"
  shows "fst (updateMultipleChunk post i c st) \<noteq> None"
    and "posted (snd (updateMultipleChunk post i c st)) = posted st @ [c]"
    and "processedCount (snd (updateMultipleChunk post i c st)) = processedCount st"
  using assms
  by (auto simp: updateMultipleChunk_def succeeds_def Let_def split: sum.splits)

lemma send_chunks_completed:
  "posted (snd (send_chunks post i cs st)) = posted st @ take (Suc (completed post i cs)) cs \<and>
   processedCount (snd (send_chunks post i cs st)) =
     processedCount st + length (concat (take (completed post i cs) cs)) \<and>
   (fst (send_chunks post i cs st) = None \<longleftrightarrow> completed post i cs = length cs)"
proof (induction cs arbitrary: i st)
  case Nil
  then show ?case by simp
next
  case (Cons c cs)
  obtain e st' where u: "updateMultipleChunk post i c st = (e, st')"
    by (cases "updateMultipleChunk post i c st")
  show ?case
  proof (cases "succeeds post i c")
    case True
    from updateMultipleChunk_succeeds [OF True, of st] u
    have "e = None" "posted st' = posted st @ [c]"
      "processedCount st' = processedCount st + length c" by simp_all
    with True u Cons.IH [of "Suc i" st'] show ?thesis by simp
  next
    case False
    from updateMultipleChunk_fails [OF False, of st] u
    have "e \<noteq> None" "posted st' = posted st @ [c]" "processedCount st' = processedCount st"
      by simp_all
    with False u show ?thesis by auto
  qed
qed

lemma updateMultipleChunk_display:
  "display (snd (updateMultipleChunk post i c st)) =
     display st @ (if succeeds post i c then updated_line (processedCount st + length c)
                   else failure_text (post i c))"
  by (auto simp: updateMultipleChunk_def succeeds_def updated_line_def failure_text_def Let_def
        split: sum.splits)

lemma progress_lines_simps:
  "progress_lines n cs 0 = []"
  "progress_lines n (c # cs) (Suc k) =
     updated_line (n + length c) @ progress_lines (n + length c) cs k"
  by (simp_all add: progress_lines_def upt_conv_Cons add.assoc o_def
        flip: map_Suc_upt del: upt_Suc)

lemma send_chunks_display:
  "display (snd (send_chunks post i cs st)) =
     display st @ progress_lines (processedCount st) cs (completed post i cs) @
     (if completed post i cs = length cs then []
      else failure_text (post (i + completed post i cs) (cs ! completed post i cs)))"
proof (induction cs arbitrary: i st)
  case Nil
  then show ?case by (simp add: progress_lines_simps)
next
  case (Cons c cs)
  obtain e st' where u: "updateMultipleChunk post i c st = (e, st')"
    by (cases "updateMultipleChunk post i c st")
  from updateMultipleChunk_display [of post i c st] u
  have d: "display st' = display st @
      (if succeeds post i c then updated_line (processedCount st + length c)
       else failure_text (post i c))"
    by simp
  show ?case
  proof (cases "succeeds post i c")
    case True
    from updateMultipleChunk_succeeds [OF True, of st] u
    have "e = None" "processedCount st' = processedCount st + length c" by simp_all
    with True u d Cons.IH [of "Suc i" st'] show ?thesis
      by (simp add: progress_lines_simps)
  next
    case False
    from updateMultipleChunk_fails [OF False, of st] u
    have "e \<noteq> None" by simp
    with False u d show ?thesis by (auto simp: progress_lines_simps)
  qed
qed

lemma completed_first_failure:
  assumes "j < length cs" and "\<not> succeeds post (i + j) (cs ! j)"
    and "\<forall>k<j. succeeds post (i + k) (cs ! k)"
  shows "completed post i cs = j"
  using assms
proof (induction cs arbitrary: i j)
  case Nil
  then show ?case by simp
next
  case (Cons c cs)
  show ?case
  proof (cases j)
    case 0
    with Cons.prems show ?thesis by simp
  next
    case (Suc j')
    with Cons.prems have "succeeds post i c" by fastforce
    moreover have "completed post (Suc i) cs = j'"
    proof (rule Cons.IH)
      show "j' < length cs" using Cons.prems(1) Suc by simp
      show "\<not> succeeds post (Suc i + j') (cs ! j')" using Cons.prems(2) Suc by simp
      show "\<forall>k<j'. succeeds post (Suc i + k) (cs ! k)"
      proof (intro allI impI)
        fix k assume "k < j'"
        then have "Suc k < j" using Suc by simp
        with Cons.prems(3) have "succeeds post (i + Suc k) ((c # cs) ! Suc k)" by blast
        then show "succeeds post (Suc i + k) (cs ! k)" by simp
      qed
    qed
    ultimately show ?thesis using Suc by simp
  qed
qed

text \<open>
  Claim C9. The targets are cut into chunks of at most 200 elements, none of them empty,
  whose concatenation is the list of targets. The chunks are posted in order; the ones
  posted are the chunks that succeeded followed by the first one that did not, and no
  other; the counter is the number of targets in the chunks that succeeded; and the
  handler ends with an error exactly when some chunk did not succeed. The number of
  chunks that succeeded is the index of the first chunk whose request fails. The display
  area shows what it showed before, then the line that announces the requests, then one
  line for each chunk that succeeded, in order, reporting the number of targets in the
  chunks up to that one, and then the closing line when every chunk succeeded, and
  otherwise the text for the request that failed; so the last count reported is the
  number of targets in the chunks that succeeded.
\<close>

theorem bulk_update_chunks:
  "\<exists>chunks err st.
     chunk (buildTargets ids ''mag_hascriticalinsights'' False) 200 = Some chunks \<and>
     concat chunks = buildTargets ids ''mag_hascriticalinsights'' False \<and>
     (\<forall>c\<in>set chunks. c \<noteq> [] \<and> length c \<le> 200) \<and>
     process_file post ids shown = Some (err, st) \<and>
     posted st = take (Suc (completed post 0 chunks)) chunks \<and>
     processedCount st = length (concat (take (completed post 0 chunks) chunks)) \<and>
     (err = None \<longleftrightarrow> completed post 0 chunks = length chunks) \<and>
     (\<forall>j<length chunks.
        \<not> succeeds post j (chunks ! j) \<and> (\<forall>k<j. succeeds post k (chunks ! k)) \<longrightarrow>
        completed post 0 chunks = j \<and> err \<noteq> None) \<and>
     display st =
       shown @
       submitting_line (length (buildTargets ids ''mag_hascriticalinsights'' False))
         (length chunks) @
       concat (map (\<lambda>j. updated_line (length (concat (take (Suc j) chunks))))
                 [0..<completed post 0 chunks]) @
       (if completed post 0 chunks = length chunks
        then final_line (length (buildTargets ids ''mag_hascriticalinsights'' False))
        else failure_text (post (completed post 0 chunks) (chunks ! completed post 0 chunks)))"
proof -
  let ?targets = "buildTargets ids ''mag_hascriticalinsights'' False"
  obtain chunks where ch: "chunk ?targets 200 = Some chunks" "concat chunks = ?targets"
      "\<forall>c\<in>set chunks. c \<noteq> [] \<and> length c \<le> 200"
    using chunk_total [of 200 ?targets] by auto
  let ?st = "\<lparr>processedCount = 0,
      display = shown @ [newline] @ ''Submitting '' @ show_nat (length ?targets) @
        '' updates in '' @ show_nat (length chunks) @ '' request(s)...'',
      posted = []\<rparr>"
  obtain err st' where s: "send_chunks post 0 chunks ?st = (err, st')"
    by (cases "send_chunks post 0 chunks ?st")
  from send_chunks_completed [of post 0 chunks ?st] s
  have p: "posted st' = take (Suc (completed post 0 chunks)) chunks"
    and n: "processedCount st' = length (concat (take (completed post 0 chunks) chunks))"
    and e: "err = None \<longleftrightarrow> completed post 0 chunks = length chunks"
    by simp_all
  from send_chunks_display [of post 0 chunks ?st] s
  have d: "display st' =
      shown @ submitting_line (length ?targets) (length chunks) @
      concat (map (\<lambda>j. updated_line (length (concat (take (Suc j) chunks))))
                [0..<completed post 0 chunks]) @
      (if completed post 0 chunks = length chunks then []
       else failure_text (post (completed post 0 chunks) (chunks ! completed post 0 chunks)))"
    by (simp add: submitting_line_def progress_lines_def)
  have first: "\<forall>j<length chunks.
        \<not> succeeds post j (chunks ! j) \<and> (\<forall>k<j. succeeds post k (chunks ! k)) \<longrightarrow>
        completed post 0 chunks = j \<and> err \<noteq> None"
    using completed_first_failure [of _ chunks post 0] e by auto
  show ?thesis
  proof (cases err)
    case None
    then have "process_file post ids shown =
        Some (None, st'\<lparr>display := display st' @ [newline, newline] @
                show_nat (length ?targets) @ '' records processed.''\<rparr>)"
      using ch(1) s by (simp add: process_file_def Let_def)
    moreover from d e None have "display (st'\<lparr>display := display st' @ [newline, newline] @
                show_nat (length ?targets) @ '' records processed.''\<rparr>) =
      shown @ submitting_line (length ?targets) (length chunks) @
      concat (map (\<lambda>j. updated_line (length (concat (take (Suc j) chunks))))
                [0..<completed post 0 chunks]) @
      (if completed post 0 chunks = length chunks then final_line (length ?targets)
       else failure_text (post (completed post 0 chunks) (chunks ! completed post 0 chunks)))"
      by (simp add: final_line_def)
    ultimately show ?thesis using ch p n e first None
      by (intro exI [of _ chunks] exI [of _ err]
            exI [of _ "st'\<lparr>display := display st' @ [newline, newline] @
                show_nat (length ?targets) @ '' records processed.''\<rparr>"]) simp
  next
    case (Some x)
    then have "process_file post ids shown = Some (Some x, st')"
      using ch(1) s by (simp add: process_file_def Let_def)
    moreover from d e Some have "display st' =
      shown @ submitting_line (length ?targets) (length chunks) @
      concat (map (\<lambda>j. updated_line (length (concat (take (Suc j) chunks))))
                [0..<completed post 0 chunks]) @
      (if completed post 0 chunks = length chunks then final_line (length ?targets)
       else failure_text (post (completed post 0 chunks) (chunks ! completed post 0 chunks)))"
      by simp
    ultimately show ?thesis using ch p n e first Some
      by (intro exI [of _ chunks] exI [of _ err] exI [of _ st']) simp
  qed
qed

lemma chunk_201: "chunk (replicate 201 x) 200 = Some [replicate 200 x, [x]]"
  unfolding chunk_def
  by (subst chunk_loop.simps, simp, subst chunk_loop.simps, simp, subst chunk_loop.simps, simp)

lemma buildTargets_sample:
  "buildTargets (replicate n ''c1'') ''mag_hascriticalinsights'' False = replicate n sample_target"
  by (simp add: buildTargets_def sample_target_def)

lemma succeeds_sample: "succeeds sample_post 0 c" "\<not> succeeds sample_post (Suc i) c"
  by (simp_all add: succeeds_def sample_post_def answer_def ok_def)

lemma display_samples:
  "show_nat 201 = ''201''" "show_nat (Suc (Suc 0)) = ''2''" "show_nat 500 = ''500''"
  "sample_post (Suc 0) c = answer 500 ''Server Error'' ''busy''"
  by (simp_all add: show_nat.simps digit_char_def sample_post_def flip: numeral_2_eq_2)

text \<open>
  With 201 identifiers and a server that accepts the first request only: two chunks, of
  200 and of one; both are posted, the handler ends with an error and the counter is 200;
  the display area reports 200 contacts and then the failure.
\<close>

theorem bulk_update_chunks_witness:
  "chunk (buildTargets (replicate 201 ''c1'') ''mag_hascriticalinsights'' False) 200 =
     Some [replicate 200 sample_target, [sample_target]] \<and>
   (\<exists>e st. process_file sample_post (replicate 201 ''c1'') ''Ready'' = Some (Some e, st) \<and>
      processedCount st = 200 \<and> posted st = [replicate 200 sample_target, [sample_target]] \<and>
      display st =
        ''Ready'' @ [newline] @ ''Submitting 201 updates in 2 request(s)...'' @
        [newline] @ ''   Updated 200 contact(s)'' @
        [newline, newline] @ ''UpdateMultiple failed: 500, Server Error, busy'')"
  using bulk_update_chunks [of "replicate 201 ''c1''" sample_post "''Ready''"]
  by (auto simp: buildTargets_sample chunk_201 succeeds_sample submitting_line_def
        updated_line_def failure_text_def display_samples show_nat_samples answer_def)

end
